theory Spec2Isabelle
  imports
    Complex_Main
    "HOL-Library.Product_Lexorder"
    "HOL-Library.Multiset"
begin

section \<open>Values\<close>

text \<open>
  A Python \<open>Decimal\<close> amount is modelled by the rational number it denotes.
  A calendar date is the triple (year, month, day),
  compared lexicographically, which is also the order of its ISO text \<open>YYYY-MM-DD\<close>.
  An instant (\<open>created_at\<close>, \<open>updated_at\<close>) is a point on the integer time line.
\<close>

type_synonym decimal = rat
type_synonym date = "nat \<times> nat \<times> nat"
type_synonym instant = int

definition year :: "date \<Rightarrow> nat" where
  "year d = fst d"

definition month :: "date \<Rightarrow> nat" where
  "month d = fst (snd d)"

definition day :: "date \<Rightarrow> nat" where
  "day d = snd (snd d)"

text \<open>The Python exceptions that the modelled code raises, catches or lets through.\<close>

datatype py_exn = ValueError | TypeError | InvalidOperation

subsection \<open>Texts handed to the library parsers\<close>

text \<open>
  A request carries amounts and dates as text.  The text is modelled by what the Python
  library makes of it.  For \<open>Decimal(text)\<close>: \<open>Numeric d\<close> is a text that denotes the
  finite decimal \<open>d\<close>; \<open>NonNumeric\<close> is a non-empty text that \<open>Decimal\<close> rejects, and
  \<open>NoText\<close> is the empty text, which it rejects too.  The rejection raises
  \<open>decimal.InvalidOperation\<close>, a subclass of \<open>ArithmeticError\<close>: it is neither a
  \<open>ValueError\<close> nor a \<open>TypeError\<close>.  For \<open>datetime.strptime(text, '%Y-%m-%d')\<close>:
  \<open>DateText d\<close> is a text that parses to the date \<open>d\<close>, \<open>BadDate\<close> a non-empty text
  that does not parse and \<open>NoDate\<close> the empty text; both raise \<open>ValueError\<close>.
\<close>

datatype amount_text = NoText | Numeric decimal | NonNumeric

datatype date_text = NoDate | DateText date | BadDate

fun Decimal :: "amount_text \<Rightarrow> py_exn + decimal" where
  "Decimal (Numeric d) = Inr d"
| "Decimal NonNumeric = Inl InvalidOperation"
| "Decimal NoText = Inl InvalidOperation"

fun strptime :: "date_text \<Rightarrow> py_exn + date" where
  "strptime (DateText d) = Inr d"
| "strptime BadDate = Inl ValueError"
| "strptime NoDate = Inl ValueError"

text \<open>Python truthiness of a text: the empty text is false.\<close>

fun amount_given :: "amount_text \<Rightarrow> bool" where
  "amount_given NoText = False"
| "amount_given _ = True"

fun date_given :: "date_text \<Rightarrow> bool" where
  "date_given NoDate = False"
| "date_given _ = True"

subsection \<open>Strings\<close>

text \<open>
  A Python \<open>str\<close> is modelled by the list of its code points, each a \<open>char\<close>, so the
  texts of the model are those whose code points are below 256.  \<open>str.strip()\<close> removes
  leading and trailing white space; the white space below 256 is the blank, the controls
  U+0009 to U+000D and U+001C to U+001F, the next-line control U+0085 and the no-break
  space U+00A0.
\<close>

definition is_space :: "char \<Rightarrow> bool" where
  "is_space c = (c \<in> set [CHR '' '', CHR 0x09, CHR 0x0A, CHR 0x0B, CHR 0x0C, CHR 0x0D,
                            CHR 0x1C, CHR 0x1D, CHR 0x1E, CHR 0x1F, CHR 0x85, CHR 0xA0])"

definition strip :: "string \<Rightarrow> string" where
  "strip s = rev (dropWhile is_space (rev (dropWhile is_space s)))"

text \<open>
  The \<open>icontains\<close> lookup: the needle occurs in the text, letter case ignored
  (for the ASCII letters).
\<close>

definition lower :: "char \<Rightarrow> char" where
  "lower c = (let n = of_char c :: nat in if 65 \<le> n \<and> n \<le> 90 then char_of (n + 32) else c)"

fun is_prefix :: "string \<Rightarrow> string \<Rightarrow> bool" where
  "is_prefix [] ys = True"
| "is_prefix (x # xs) [] = False"
| "is_prefix (x # xs) (y # ys) = (x = y \<and> is_prefix xs ys)"

fun contains :: "string \<Rightarrow> string \<Rightarrow> bool" where
  "contains [] needle = (needle = [])"
| "contains (c # cs) needle = (is_prefix needle (c # cs) \<or> contains cs needle)"

definition icontains :: "string \<Rightarrow> string \<Rightarrow> bool" where
  "icontains text needle = contains (map lower text) (map lower needle)"

section \<open>The entity store\<close>

text \<open>
  Modelled from the spec: the model declarations (\<open>models.py\<close>) are not among the sources.
  The records below follow the data model of the specification: a Category with a unique
  name; an Income with a required reference to a Category, a source, an amount, a date,
  an optional note and the two time stamps; an Expense with a title, an amount, a date
  and the two time stamps.  Each table assigns its ids from its own sequence; \<open>created_at\<close>
  is set when a row is created and \<open>updated_at\<close> is refreshed on every save.  Limits that
  the declarations may put on a column (digits of an amount, length of a text) are not
  part of the model: a row that a view hands to the store is stored.
\<close>

record category =
  cat_id :: nat
  cat_name :: string
  cat_created_at :: instant

record income =
  inc_id :: nat
  inc_category_id :: nat
  inc_source :: string
  inc_amount :: decimal
  inc_date :: date
  inc_note :: string
  inc_created_at :: instant
  inc_updated_at :: instant

record expense =
  exp_id :: nat
  exp_title :: string
  exp_amount :: decimal
  exp_date :: date
  exp_created_at :: instant
  exp_updated_at :: instant

record store =
  categories :: "category list"
  incomes :: "income list"
  expenses :: "expense list"
  next_category_id :: nat
  next_income_id :: nat
  next_expense_id :: nat

definition empty_store :: store where
  "empty_store = \<lparr>categories = [], incomes = [], expenses = [],
                   next_category_id = 1, next_income_id = 1, next_expense_id = 1\<rparr>"

subsection \<open>Manager operations\<close>

text \<open>
  \<open>Model.objects.get(pk=...)\<close>: the row with that primary key, or \<open>None\<close> where the
  code gets \<open>DoesNotExist\<close>.
\<close>

definition Category_get :: "store \<Rightarrow> nat \<Rightarrow> category option" where
  "Category_get s pk = find (\<lambda>c. cat_id c = pk) (categories s)"

definition Income_get :: "store \<Rightarrow> nat \<Rightarrow> income option" where
  "Income_get s pk = find (\<lambda>r. inc_id r = pk) (incomes s)"

definition Expense_get :: "store \<Rightarrow> nat \<Rightarrow> expense option" where
  "Expense_get s pk = find (\<lambda>r. exp_id r = pk) (expenses s)"

text \<open>
  Modelled from the spec: \<open>models.py\<close>, which declares the id and the time stamp columns,
  is not among the sources.  \<open>Model.objects.create(...)\<close> adds a new row with the next id
  of its table; both time stamps are the instant of the call.
\<close>

definition Income_create ::
  "instant \<Rightarrow> nat \<Rightarrow> string \<Rightarrow> decimal \<Rightarrow> date \<Rightarrow> string \<Rightarrow> store \<Rightarrow> income \<times> store" where
  "Income_create now cid src amt d nt s =
     (let r = \<lparr>inc_id = next_income_id s, inc_category_id = cid, inc_source = src,
               inc_amount = amt, inc_date = d, inc_note = nt,
               inc_created_at = now, inc_updated_at = now\<rparr>
      in (r, s\<lparr>incomes := incomes s @ [r], next_income_id := Suc (next_income_id s)\<rparr>))"

definition Expense_create ::
  "instant \<Rightarrow> string \<Rightarrow> decimal \<Rightarrow> date \<Rightarrow> store \<Rightarrow> expense \<times> store" where
  "Expense_create now ttl amt d s =
     (let r = \<lparr>exp_id = next_expense_id s, exp_title = ttl, exp_amount = amt, exp_date = d,
               exp_created_at = now, exp_updated_at = now\<rparr>
      in (r, s\<lparr>expenses := expenses s @ [r], next_expense_id := Suc (next_expense_id s)\<rparr>))"

text \<open>\<open>Category.objects.get_or_create(name=...)\<close>.\<close>

definition Category_get_or_create :: "instant \<Rightarrow> string \<Rightarrow> store \<Rightarrow> category \<times> store" where
  "Category_get_or_create now nm s =
     (case find (\<lambda>c. cat_name c = nm) (categories s) of
        Some c \<Rightarrow> (c, s)
      | None \<Rightarrow>
          (let c = \<lparr>cat_id = next_category_id s, cat_name = nm, cat_created_at = now\<rparr>
           in (c, s\<lparr>categories := categories s @ [c],
                     next_category_id := Suc (next_category_id s)\<rparr>)))"

text \<open>
  Modelled from the spec: \<open>models.py\<close>, which declares how \<open>updated_at\<close> is kept, is not
  among the sources; the specification has every update refresh it.  \<open>instance.save()\<close>
  on a row read from the table replaces the row with the instance's id by the instance,
  whose \<open>updated_at\<close> becomes the instant of the call.
\<close>

definition Income_save :: "instant \<Rightarrow> income \<Rightarrow> store \<Rightarrow> store" where
  "Income_save now r s =
     s\<lparr>incomes := map (\<lambda>x. if inc_id x = inc_id r then r\<lparr>inc_updated_at := now\<rparr> else x)
                        (incomes s)\<rparr>"

definition Expense_save :: "instant \<Rightarrow> expense \<Rightarrow> store \<Rightarrow> store" where
  "Expense_save now r s =
     s\<lparr>expenses := map (\<lambda>x. if exp_id x = exp_id r then r\<lparr>exp_updated_at := now\<rparr> else x)
                         (expenses s)\<rparr>"

text \<open>\<open>instance.delete()\<close>.\<close>

definition Income_delete :: "income \<Rightarrow> store \<Rightarrow> store" where
  "Income_delete r s = s\<lparr>incomes := filter (\<lambda>x. inc_id x \<noteq> inc_id r) (incomes s)\<rparr>"

definition Expense_delete :: "expense \<Rightarrow> store \<Rightarrow> store" where
  "Expense_delete r s = s\<lparr>expenses := filter (\<lambda>x. exp_id x \<noteq> exp_id r) (expenses s)\<rparr>"

text \<open>
  \<open>aggregate(total=Sum('amount'))['total']\<close>: \<open>None\<close> over no rows, and over some rows
  the value that the \<open>SUM\<close> of the database gives for the column.  The sources do not
  fix that value: a database with exact decimals gives the exact sum, while the SQLite
  backend adds in binary floating point and gives back a decimal of fifteen digits.  The
  summation of the database is therefore the parameter \<open>db_sum\<close> of the model.
\<close>

definition aggregate_Sum :: "(decimal list \<Rightarrow> decimal) \<Rightarrow> decimal list \<Rightarrow> decimal option" where
  "aggregate_Sum db_sum xs = (if xs = [] then None else Some (db_sum xs))"

text \<open>
  A descending sort that keeps rows with equal keys in their given order.  This is
  \<open>list.sort(key=..., reverse=True)\<close>, and it stands for \<open>order_by\<close> with descending
  columns too (where the database leaves the order of rows with equal keys open).
\<close>

definition sort_desc :: "('a \<Rightarrow> 'k::linorder) \<Rightarrow> 'a list \<Rightarrow> 'a list" where
  "sort_desc key xs = rev (sort_key key (rev xs))"

text \<open>\<open>Income.objects...order_by('-date', '-created_at')\<close> and the same for Expense.\<close>

definition incomes_by_date_created :: "store \<Rightarrow> income list" where
  "incomes_by_date_created s = sort_desc (\<lambda>r. (inc_date r, inc_created_at r)) (incomes s)"

definition expenses_by_date_created :: "store \<Rightarrow> expense list" where
  "expenses_by_date_created s = sort_desc (\<lambda>r. (exp_date r, exp_created_at r)) (expenses s)"

text \<open>The name of the category an income row refers to (\<open>income.category.name\<close>).\<close>

definition category_name :: "store \<Rightarrow> income \<Rightarrow> string" where
  "category_name s r = (case Category_get s (inc_category_id r) of
                          Some c \<Rightarrow> cat_name c | None \<Rightarrow> [])"

section \<open>Aggregation: \<open>DashboardView\<close>\<close>

definition calculate_total_income :: "(decimal list \<Rightarrow> decimal) \<Rightarrow> store \<Rightarrow> decimal" where
  "calculate_total_income db_sum s =
     (case aggregate_Sum db_sum (map inc_amount (incomes s)) of Some t \<Rightarrow> t | None \<Rightarrow> 0)"

definition calculate_total_expenses :: "(decimal list \<Rightarrow> decimal) \<Rightarrow> store \<Rightarrow> decimal" where
  "calculate_total_expenses db_sum s =
     (case aggregate_Sum db_sum (map exp_amount (expenses s)) of Some t \<Rightarrow> t | None \<Rightarrow> 0)"

definition calculate_balance :: "decimal \<Rightarrow> decimal \<Rightarrow> decimal" where
  "calculate_balance total_income total_expenses = total_income - total_expenses"

text \<open>\<open>x or Decimal('0.00')\<close>: \<open>None\<close> and a zero total both give \<open>0.00\<close>.\<close>

definition or_zero :: "decimal option \<Rightarrow> decimal" where
  "or_zero t = (case t of None \<Rightarrow> 0 | Some v \<Rightarrow> if v = 0 then 0 else v)"

definition get_recent_income :: "nat \<Rightarrow> store \<Rightarrow> income list" where
  "get_recent_income limit s = take limit (incomes_by_date_created s)"

definition get_recent_expenses :: "nat \<Rightarrow> store \<Rightarrow> expense list" where
  "get_recent_expenses limit s = take limit (expenses_by_date_created s)"

section \<open>Validation in the forms: \<open>forms.py\<close>\<close>

text \<open>
  The outcome of a \<open>clean_<field>\<close> method: the cleaned value, a \<open>ValidationError\<close> with
  its message, or another exception that the method lets through.
\<close>

datatype 'a cleaned = Cleaned 'a | ValidationError string | Raised py_exn

text \<open>
  \<open>IncomeForm.clean_amount\<close>; \<open>ExpenseForm.clean_amount\<close> is the same text.  The argument
  is \<open>cleaned_data.get('amount')\<close>: the Decimal that the form field parsed, or \<open>None\<close>.
\<close>

definition clean_amount :: "decimal option \<Rightarrow> decimal option cleaned" where
  "clean_amount amount =
     (case amount of
        None \<Rightarrow> Cleaned amount
      | Some a \<Rightarrow>
          if a \<le> 0 then ValidationError ''Amount must be greater than zero.''
          else if a > 9999999999 / 100 then ValidationError ''Amount cannot exceed $99,999,999.99.''
          else Cleaned amount)"

text \<open>\<open>date.replace(year=...)\<close> raises \<open>ValueError\<close> when the new date does not exist.\<close>

definition is_leap :: "nat \<Rightarrow> bool" where
  "is_leap y = (y mod 4 = 0 \<and> (y mod 100 \<noteq> 0 \<or> y mod 400 = 0))"

definition days_in_month :: "nat \<Rightarrow> nat \<Rightarrow> nat" where
  "days_in_month y m =
     (if m = 2 then (if is_leap y then 29 else 28)
      else if m = 4 \<or> m = 6 \<or> m = 9 \<or> m = 11 then 30 else 31)"

definition valid_date :: "date \<Rightarrow> bool" where
  "valid_date d = (1 \<le> year d \<and> year d \<le> 9999 \<and> 1 \<le> month d \<and> month d \<le> 12 \<and>
                   1 \<le> day d \<and> day d \<le> days_in_month (year d) (month d))"

definition replace_year :: "date \<Rightarrow> nat \<Rightarrow> py_exn + date" where
  "replace_year d y =
     (if valid_date (y, month d, day d) then Inr (y, month d, day d) else Inl ValueError)"

text \<open>
  \<open>IncomeForm.clean_date\<close>; \<open>ExpenseForm.clean_date\<close> is the same text.  The first
  argument is \<open>date.today()\<close>, the second \<open>cleaned_data.get('date')\<close>.
\<close>

definition clean_date :: "date \<Rightarrow> date option \<Rightarrow> date option cleaned" where
  "clean_date today transaction_date =
     (case transaction_date of
        None \<Rightarrow> Cleaned transaction_date
      | Some d \<Rightarrow>
          (case replace_year today (year today + 1) of
             Inl e \<Rightarrow> Raised e
           | Inr limit \<Rightarrow>
               if d > limit
               then ValidationError ''Date cannot be more than one year in the future.''
               else Cleaned transaction_date))"

section \<open>The JSON API: \<open>views.py\<close>\<close>

text \<open>
  A response keeps the HTTP status code and the \<open>status\<close> and \<open>message\<close> members of the
  JSON envelope.  The \<open>data\<close> member of a create, update or delete response echoes the
  row and is left out; so is the exception text appended to the message of a 500.
\<close>

record response =
  http_status :: nat
  status :: string
  message :: string

definition error_response :: "nat \<Rightarrow> string \<Rightarrow> response" where
  "error_response c m = \<lparr>http_status = c, status = ''error'', message = m\<rparr>"

definition success_response :: "nat \<Rightarrow> string \<Rightarrow> response" where
  "success_response c m = \<lparr>http_status = c, status = ''success'', message = m\<rparr>"

text \<open>
  One step of a handler: it goes on with a value, returns a response, or raises an
  exception that only the handler's outer \<open>except Exception\<close> catches.
\<close>

datatype 'a step = Ok 'a | Respond response | Raise py_exn

fun and_then :: "'a step \<Rightarrow> ('a \<Rightarrow> 'b step) \<Rightarrow> 'b step" where
  "and_then (Ok x) f = f x"
| "and_then (Respond r) f = Respond r"
| "and_then (Raise e) f = Raise e"

text \<open>
  The amount block, the same text in every API handler:
  \<^verbatim>\<open>try: amount = Decimal(str(data['amount'])); if amount <= 0: return 400
  except (ValueError, TypeError): return 400\<close>
\<close>

definition api_amount :: "amount_text \<Rightarrow> decimal step" where
  "api_amount t =
     (case Decimal t of
        Inr amount \<Rightarrow>
          if amount \<le> 0 then Respond (error_response 400 ''Amount must be greater than zero'')
          else Ok amount
      | Inl e \<Rightarrow>
          if e = ValueError \<or> e = TypeError
          then Respond (error_response 400 ''Invalid amount format'')
          else Raise e)"

text \<open>
  The date block:
  \<^verbatim>\<open>try: d = datetime.strptime(data['date'], '%Y-%m-%d').date()
  except ValueError: return 400\<close>
\<close>

definition api_date :: "date_text \<Rightarrow> date step" where
  "api_date t =
     (case strptime t of
        Inr d \<Rightarrow> Ok d
      | Inl e \<Rightarrow>
          if e = ValueError
          then Respond (error_response 400 ''Invalid date format. Use YYYY-MM-DD'')
          else Raise e)"

subsection \<open>\<open>IncomeAPIView\<close>\<close>

text \<open>
  The body of a request to \<open>/api/income/\<close> after \<open>json.loads\<close>: a JSON object whose
  members, where present, are a number for \<open>category_id\<close> and texts for the others.
\<close>

record income_body =
  ib_category_id :: "nat option"
  ib_source :: "string option"
  ib_amount :: "amount_text option"
  ib_date :: "date_text option"
  ib_note :: "string option"

definition missing_field :: "string \<Rightarrow> response" where
  "missing_field f = error_response 400 (''Missing required field: '' @ f)"

definition IncomeAPIView_post :: "instant \<Rightarrow> income_body \<Rightarrow> store \<Rightarrow> response \<times> store" where
  "IncomeAPIView_post now data s =
     (case ib_category_id data of
        None \<Rightarrow> (missing_field ''category_id'', s)
      | Some cid \<Rightarrow>
     if cid = 0 then (missing_field ''category_id'', s) else
     (case ib_source data of
        None \<Rightarrow> (missing_field ''source'', s)
      | Some src \<Rightarrow>
     if src = [] then (missing_field ''source'', s) else
     (case ib_amount data of
        None \<Rightarrow> (missing_field ''amount'', s)
      | Some amt \<Rightarrow>
     if \<not> amount_given amt then (missing_field ''amount'', s) else
     (case ib_date data of
        None \<Rightarrow> (missing_field ''date'', s)
      | Some dt \<Rightarrow>
     if \<not> date_given dt then (missing_field ''date'', s) else
     (case Category_get s cid of
        None \<Rightarrow> (error_response 400 ''Invalid category ID'', s)
      | Some category \<Rightarrow>
     (case and_then (api_date dt) (\<lambda>transaction_date.
           and_then (api_amount amt) (\<lambda>amount. Ok (transaction_date, amount))) of
        Respond r \<Rightarrow> (r, s)
      | Raise e \<Rightarrow> (error_response 500 ''Failed to create income transaction'', s)
      | Ok (transaction_date, amount) \<Rightarrow>
          (let (income, s') =
                 Income_create now (cat_id category) (strip src) amount transaction_date
                   (strip (case ib_note data of None \<Rightarrow> [] | Some n \<Rightarrow> n)) s
           in (success_response 201 ''Income transaction created successfully'', s'))))))))"

text \<open>The field updates of \<open>IncomeAPIView.put\<close>, in the order of the code.\<close>

definition put_income_category :: "income_body \<Rightarrow> store \<Rightarrow> income \<Rightarrow> income step" where
  "put_income_category data s income =
     (case ib_category_id data of
        None \<Rightarrow> Ok income
      | Some cid \<Rightarrow>
          (case Category_get s cid of
             Some category \<Rightarrow> Ok (income\<lparr>inc_category_id := cat_id category\<rparr>)
           | None \<Rightarrow> Respond (error_response 400 ''Invalid category ID'')))"

definition put_income_source :: "income_body \<Rightarrow> income \<Rightarrow> income step" where
  "put_income_source data income =
     (case ib_source data of
        None \<Rightarrow> Ok income
      | Some src \<Rightarrow>
          if strip src = [] then Respond (error_response 400 ''Source cannot be empty'')
          else Ok (income\<lparr>inc_source := strip src\<rparr>))"

definition put_income_amount :: "income_body \<Rightarrow> income \<Rightarrow> income step" where
  "put_income_amount data income =
     (case ib_amount data of
        None \<Rightarrow> Ok income
      | Some amt \<Rightarrow> and_then (api_amount amt) (\<lambda>amount. Ok (income\<lparr>inc_amount := amount\<rparr>)))"

definition put_income_date :: "income_body \<Rightarrow> income \<Rightarrow> income step" where
  "put_income_date data income =
     (case ib_date data of
        None \<Rightarrow> Ok income
      | Some dt \<Rightarrow> and_then (api_date dt) (\<lambda>d. Ok (income\<lparr>inc_date := d\<rparr>)))"

definition put_income_note :: "income_body \<Rightarrow> income \<Rightarrow> income step" where
  "put_income_note data income =
     (case ib_note data of
        None \<Rightarrow> Ok income
      | Some n \<Rightarrow> Ok (income\<lparr>inc_note := strip n\<rparr>))"

definition put_income_fields :: "income_body \<Rightarrow> store \<Rightarrow> income \<Rightarrow> income step" where
  "put_income_fields data s income =
     and_then (put_income_category data s income) (\<lambda>i1.
     and_then (put_income_source data i1) (\<lambda>i2.
     and_then (put_income_amount data i2) (\<lambda>i3.
     and_then (put_income_date data i3) (\<lambda>i4.
     put_income_note data i4))))"

definition IncomeAPIView_put ::
  "instant \<Rightarrow> nat \<Rightarrow> income_body \<Rightarrow> store \<Rightarrow> response \<times> store" where
  "IncomeAPIView_put now pk data s =
     (case Income_get s pk of
        None \<Rightarrow> (error_response 404 ''Income transaction not found'', s)
      | Some income \<Rightarrow>
          (case put_income_fields data s income of
             Respond r \<Rightarrow> (r, s)
           | Raise e \<Rightarrow> (error_response 500 ''Failed to update income transaction'', s)
           | Ok income' \<Rightarrow>
               (success_response 200 ''Income transaction updated successfully'',
                Income_save now income' s)))"

subsection \<open>\<open>ExpenseAPIView\<close>\<close>

record expense_body =
  eb_title :: "string option"
  eb_amount :: "amount_text option"
  eb_date :: "date_text option"

definition ExpenseAPIView_post :: "instant \<Rightarrow> expense_body \<Rightarrow> store \<Rightarrow> response \<times> store" where
  "ExpenseAPIView_post now data s =
     (case eb_title data of
        None \<Rightarrow> (missing_field ''title'', s)
      | Some ttl \<Rightarrow>
     if ttl = [] then (missing_field ''title'', s) else
     (case eb_amount data of
        None \<Rightarrow> (missing_field ''amount'', s)
      | Some amt \<Rightarrow>
     if \<not> amount_given amt then (missing_field ''amount'', s) else
     (case eb_date data of
        None \<Rightarrow> (missing_field ''date'', s)
      | Some dt \<Rightarrow>
     if \<not> date_given dt then (missing_field ''date'', s) else
     (case and_then (api_date dt) (\<lambda>transaction_date.
           and_then (api_amount amt) (\<lambda>amount. Ok (transaction_date, amount))) of
        Respond r \<Rightarrow> (r, s)
      | Raise e \<Rightarrow> (error_response 500 ''Failed to create expense transaction'', s)
      | Ok (transaction_date, amount) \<Rightarrow>
          (let (expense, s') = Expense_create now (strip ttl) amount transaction_date s
           in (success_response 201 ''Expense transaction created successfully'', s'))))))"

definition put_expense_title :: "expense_body \<Rightarrow> expense \<Rightarrow> expense step" where
  "put_expense_title data expense =
     (case eb_title data of
        None \<Rightarrow> Ok expense
      | Some ttl \<Rightarrow>
          if strip ttl = [] then Respond (error_response 400 ''Title cannot be empty'')
          else Ok (expense\<lparr>exp_title := strip ttl\<rparr>))"

definition put_expense_amount :: "expense_body \<Rightarrow> expense \<Rightarrow> expense step" where
  "put_expense_amount data expense =
     (case eb_amount data of
        None \<Rightarrow> Ok expense
      | Some amt \<Rightarrow> and_then (api_amount amt) (\<lambda>amount. Ok (expense\<lparr>exp_amount := amount\<rparr>)))"

definition put_expense_date :: "expense_body \<Rightarrow> expense \<Rightarrow> expense step" where
  "put_expense_date data expense =
     (case eb_date data of
        None \<Rightarrow> Ok expense
      | Some dt \<Rightarrow> and_then (api_date dt) (\<lambda>d. Ok (expense\<lparr>exp_date := d\<rparr>)))"

definition put_expense_fields :: "expense_body \<Rightarrow> expense \<Rightarrow> expense step" where
  "put_expense_fields data expense =
     and_then (put_expense_title data expense) (\<lambda>e1.
     and_then (put_expense_amount data e1) (\<lambda>e2.
     put_expense_date data e2))"

definition ExpenseAPIView_put ::
  "instant \<Rightarrow> nat \<Rightarrow> expense_body \<Rightarrow> store \<Rightarrow> response \<times> store" where
  "ExpenseAPIView_put now pk data s =
     (case Expense_get s pk of
        None \<Rightarrow> (error_response 404 ''Expense transaction not found'', s)
      | Some expense \<Rightarrow>
          (case put_expense_fields data expense of
             Respond r \<Rightarrow> (r, s)
           | Raise e \<Rightarrow> (error_response 500 ''Failed to update expense transaction'', s)
           | Ok expense' \<Rightarrow>
               (success_response 200 ''Expense transaction updated successfully'',
                Expense_save now expense' s)))"

subsection \<open>\<open>TransactionAPIView\<close>\<close>

text \<open>
  The body of a request to \<open>/api/transactions/\<close> after \<open>json.loads\<close>.  The members
  \<open>category_id\<close> and \<open>date\<close> are ones a caller may send; no handler of this view reads
  them.
\<close>

record transaction_body =
  tb_id :: "nat option"
  tb_type :: "string option"
  tb_amount :: "amount_text option"
  tb_description :: "string option"
  tb_note :: "string option"
  tb_category_id :: "nat option"
  tb_date :: "date_text option"

text \<open>The arguments \<open>now\<close> and \<open>today\<close> are \<open>datetime.now()\<close> and its \<open>.date()\<close>.\<close>

definition TransactionAPIView_post ::
  "instant \<Rightarrow> date \<Rightarrow> transaction_body \<Rightarrow> store \<Rightarrow> response \<times> store" where
  "TransactionAPIView_post now today data s =
     (if tb_type data \<noteq> Some ''income'' \<and> tb_type data \<noteq> Some ''expense''
      then (error_response 400
              ''Invalid or missing transaction type. Must be \"income\" or \"expense\"'', s)
      else
     (case tb_amount data of
        None \<Rightarrow> (missing_field ''amount'', s)
      | Some amt \<Rightarrow>
     if \<not> amount_given amt then (missing_field ''amount'', s) else
     (case tb_description data of
        None \<Rightarrow> (missing_field ''description'', s)
      | Some description \<Rightarrow>
     if description = [] then (missing_field ''description'', s) else
     if tb_type data = Some ''income'' then
       (let (category, s1) = Category_get_or_create now ''Salary'' s in
        (case api_amount amt of
           Respond r \<Rightarrow> (r, s1)
         | Raise e \<Rightarrow> (error_response 500 ''Failed to create transaction'', s1)
         | Ok amount \<Rightarrow>
             (let (income, s2) =
                    Income_create now (cat_id category) (strip description) amount today
                      (strip (case tb_note data of None \<Rightarrow> [] | Some n \<Rightarrow> n)) s1
              in (success_response 200 ''Income transaction created successfully'', s2))))
     else
       (case api_amount amt of
          Respond r \<Rightarrow> (r, s)
        | Raise e \<Rightarrow> (error_response 500 ''Failed to create transaction'', s)
        | Ok amount \<Rightarrow>
            (let (expense, s') = Expense_create now (strip description) amount today s
             in (success_response 200 ''Expense transaction created successfully'', s'))))))"

definition put_transaction_income :: "transaction_body \<Rightarrow> income \<Rightarrow> income step" where
  "put_transaction_income data income =
     and_then
       (case tb_amount data of
          None \<Rightarrow> Ok income
        | Some amt \<Rightarrow> and_then (api_amount amt) (\<lambda>amount. Ok (income\<lparr>inc_amount := amount\<rparr>)))
       (\<lambda>i1. case tb_description data of
                None \<Rightarrow> Ok i1
              | Some description \<Rightarrow>
                  if strip description = []
                  then Respond (error_response 400 ''Description cannot be empty'')
                  else Ok (i1\<lparr>inc_source := strip description\<rparr>))"

definition put_transaction_expense :: "transaction_body \<Rightarrow> expense \<Rightarrow> expense step" where
  "put_transaction_expense data expense =
     and_then
       (case tb_amount data of
          None \<Rightarrow> Ok expense
        | Some amt \<Rightarrow> and_then (api_amount amt) (\<lambda>amount. Ok (expense\<lparr>exp_amount := amount\<rparr>)))
       (\<lambda>e1. case tb_description data of
                None \<Rightarrow> Ok e1
              | Some description \<Rightarrow>
                  if strip description = []
                  then Respond (error_response 400 ''Description cannot be empty'')
                  else Ok (e1\<lparr>exp_title := strip description\<rparr>))"

definition TransactionAPIView_put ::
  "instant \<Rightarrow> transaction_body \<Rightarrow> store \<Rightarrow> response \<times> store" where
  "TransactionAPIView_put now data s =
     (case tb_id data of
        None \<Rightarrow> (missing_field ''id'', s)
      | Some transaction_id \<Rightarrow>
          (case Income_get s transaction_id of
             Some income_transaction \<Rightarrow>
               (case put_transaction_income data income_transaction of
                  Respond r \<Rightarrow> (r, s)
                | Raise e \<Rightarrow> (error_response 500 ''Failed to update transaction'', s)
                | Ok income' \<Rightarrow>
                    (success_response 200 ''Income transaction updated successfully'',
                     Income_save now income' s))
           | None \<Rightarrow>
               (case Expense_get s transaction_id of
                  None \<Rightarrow> (error_response 404 ''Transaction not found'', s)
                | Some expense_transaction \<Rightarrow>
                    (case put_transaction_expense data expense_transaction of
                       Respond r \<Rightarrow> (r, s)
                     | Raise e \<Rightarrow> (error_response 500 ''Failed to update transaction'', s)
                     | Ok expense' \<Rightarrow>
                         (success_response 200 ''Expense transaction updated successfully'',
                          Expense_save now expense' s)))))"

definition TransactionAPIView_delete :: "transaction_body \<Rightarrow> store \<Rightarrow> response \<times> store" where
  "TransactionAPIView_delete data s =
     (case tb_id data of
        None \<Rightarrow> (missing_field ''id'', s)
      | Some transaction_id \<Rightarrow>
          (case Income_get s transaction_id of
             Some income_transaction \<Rightarrow>
               (success_response 200 ''Income transaction deleted successfully'',
                Income_delete income_transaction s)
           | None \<Rightarrow>
               (case Expense_get s transaction_id of
                  None \<Rightarrow> (error_response 404 ''Transaction not found'', s)
                | Some expense_transaction \<Rightarrow>
                    (success_response 200 ''Expense transaction deleted successfully'',
                     Expense_delete expense_transaction s))))"

section \<open>Listings: \<open>IncomeListView\<close> and \<open>ExpenseListView\<close>\<close>

text \<open>
  The query parameters of a listing request, each as \<open>request.GET.get(name, '')\<close>.  For
  the two dates and the two amounts the value is the text after \<open>.strip()\<close>.
\<close>

record list_params =
  lp_search :: string
  lp_category :: string
  lp_date_from :: date_text
  lp_date_to :: date_text
  lp_amount_min :: amount_text
  lp_amount_max :: amount_text

text \<open>
  \<^verbatim>\<open>if text: try: d = datetime.strptime(text, '%Y-%m-%d').date(); queryset = queryset.filter(...)
  except ValueError: pass\<close>
\<close>

definition filter_by_date ::
  "date_text \<Rightarrow> (date \<Rightarrow> 'a \<Rightarrow> bool) \<Rightarrow> 'a list \<Rightarrow> py_exn + 'a list" where
  "filter_by_date t keep queryset =
     (if date_given t
      then (case strptime t of
              Inr d \<Rightarrow> Inr (filter (keep d) queryset)
            | Inl e \<Rightarrow> if e = ValueError then Inr queryset else Inl e)
      else Inr queryset)"

text \<open>
  \<^verbatim>\<open>if text: try: a = Decimal(text); queryset = queryset.filter(...)
  except (ValueError, TypeError): pass\<close>
\<close>

definition filter_by_amount ::
  "amount_text \<Rightarrow> (decimal \<Rightarrow> 'a \<Rightarrow> bool) \<Rightarrow> 'a list \<Rightarrow> py_exn + 'a list" where
  "filter_by_amount t keep queryset =
     (if amount_given t
      then (case Decimal t of
              Inr a \<Rightarrow> Inr (filter (keep a) queryset)
            | Inl e \<Rightarrow> if e = ValueError \<or> e = TypeError then Inr queryset else Inl e)
      else Inr queryset)"

fun raising :: "py_exn + 'a \<Rightarrow> ('a \<Rightarrow> py_exn + 'b) \<Rightarrow> py_exn + 'b" where
  "raising (Inr x) f = f x"
| "raising (Inl e) f = Inl e"

text \<open>
  \<open>IncomeListView.get_queryset\<close>.  The argument is \<open>None\<close> when the view has no request,
  and the result is \<open>Inl\<close> when an exception leaves the method.
\<close>

definition IncomeListView_get_queryset :: "list_params option \<Rightarrow> store \<Rightarrow> py_exn + income list" where
  "IncomeListView_get_queryset request s =
     (let queryset = incomes_by_date_created s in
      case request of
        None \<Rightarrow> Inr queryset
      | Some GET \<Rightarrow>
          (let search_query = strip (lp_search GET);
               q1 = (if search_query \<noteq> []
                     then filter (\<lambda>r. icontains (inc_source r) search_query
                                      \<or> icontains (inc_note r) search_query
                                      \<or> icontains (category_name s r) search_query) queryset
                     else queryset);
               category_filter = strip (lp_category GET);
               q2 = (if category_filter \<noteq> []
                     then filter (\<lambda>r. category_name s r = category_filter) q1
                     else q1)
           in raising (filter_by_date (lp_date_from GET) (\<lambda>d r. inc_date r \<ge> d) q2) (\<lambda>q3.
              raising (filter_by_date (lp_date_to GET) (\<lambda>d r. inc_date r \<le> d) q3) (\<lambda>q4.
              raising (filter_by_amount (lp_amount_min GET) (\<lambda>a r. inc_amount r \<ge> a) q4) (\<lambda>q5.
              filter_by_amount (lp_amount_max GET) (\<lambda>a r. inc_amount r \<le> a) q5)))))"

text \<open>\<open>ExpenseListView.get_queryset\<close>; it does not read the \<open>category\<close> parameter.\<close>

definition ExpenseListView_get_queryset :: "list_params option \<Rightarrow> store \<Rightarrow> py_exn + expense list" where
  "ExpenseListView_get_queryset request s =
     (let queryset = expenses_by_date_created s in
      case request of
        None \<Rightarrow> Inr queryset
      | Some GET \<Rightarrow>
          (let search_query = strip (lp_search GET);
               q1 = (if search_query \<noteq> []
                     then filter (\<lambda>r. icontains (exp_title r) search_query) queryset
                     else queryset)
           in raising (filter_by_date (lp_date_from GET) (\<lambda>d r. exp_date r \<ge> d) q1) (\<lambda>q3.
              raising (filter_by_date (lp_date_to GET) (\<lambda>d r. exp_date r \<le> d) q3) (\<lambda>q4.
              raising (filter_by_amount (lp_amount_min GET) (\<lambda>a r. exp_amount r \<ge> a) q4) (\<lambda>q5.
              filter_by_amount (lp_amount_max GET) (\<lambda>a r. exp_amount r \<le> a) q5)))))"

section \<open>Dashboard data and search\<close>

text \<open>
  An entry of a combined transaction list.  The code converts the amount with \<open>float\<close> and
  the date with \<open>isoformat\<close> for the JSON text; the entry keeps the decimal and the date,
  and sorting by the date is sorting by its ISO text.
\<close>

record entry =
  tx_id :: nat
  tx_type :: string
  tx_title :: string
  tx_category :: string
  tx_amount :: decimal
  tx_date :: date
  tx_note :: string

definition income_entry :: "store \<Rightarrow> income \<Rightarrow> entry" where
  "income_entry s income =
     \<lparr>tx_id = inc_id income, tx_type = ''income'', tx_title = inc_source income,
      tx_category = category_name s income, tx_amount = inc_amount income,
      tx_date = inc_date income, tx_note = inc_note income\<rparr>"

definition expense_entry :: "expense \<Rightarrow> entry" where
  "expense_entry expense =
     \<lparr>tx_id = exp_id expense, tx_type = ''expense'', tx_title = exp_title expense,
      tx_category = ''Expense'', tx_amount = exp_amount expense,
      tx_date = exp_date expense, tx_note = []\<rparr>"

record dashboard_data =
  dd_http_status :: nat
  dd_status :: string
  totalIncome :: decimal
  totalExpenses :: decimal
  currentBalance :: decimal
  recent_transactions :: "entry list"

definition DashboardDataAPIView_get ::
  "(decimal list \<Rightarrow> decimal) \<Rightarrow> store \<Rightarrow> dashboard_data" where
  "DashboardDataAPIView_get db_sum s =
     (let total_income = or_zero (aggregate_Sum db_sum (map inc_amount (incomes s)));
          total_expenses = or_zero (aggregate_Sum db_sum (map exp_amount (expenses s)));
          current_balance = total_income - total_expenses;
          recent_income = take 5 (incomes_by_date_created s);
          recent_expenses = take 5 (expenses_by_date_created s);
          combined = map (income_entry s) recent_income @ map expense_entry recent_expenses
      in \<lparr>dd_http_status = 200, dd_status = ''success'',
          totalIncome = total_income, totalExpenses = total_expenses,
          currentBalance = current_balance,
          recent_transactions = take 10 (sort_desc tx_date combined)\<rparr>)"

text \<open>
  Slices.  A queryset refuses a negative bound (``Negative indexing is not supported'');
  a Python list counts a negative bound from the end.
\<close>

definition queryset_upto :: "int \<Rightarrow> 'a list \<Rightarrow> py_exn + 'a list" where
  "queryset_upto limit xs = (if limit < 0 then Inl ValueError else Inr (take (nat limit) xs))"

definition list_upto :: "int \<Rightarrow> 'a list \<Rightarrow> 'a list" where
  "list_upto limit xs =
     (if limit < 0 then take (length xs - nat (- limit)) xs else take (nat limit) xs)"

text \<open>
  The response of \<open>SearchAPIView.get\<close>; \<open>sr_count\<close> is \<open>None\<close> in the responses that
  have no \<open>count\<close> member.  The \<open>url\<close> member of a result is left out.
\<close>

record search_response =
  sr_http_status :: nat
  sr_status :: string
  sr_results :: "entry list"
  sr_count :: "nat option"

definition search_income :: "string \<Rightarrow> store \<Rightarrow> income list" where
  "search_income query s =
     sort_desc inc_date
       (filter (\<lambda>r. icontains (inc_source r) query \<or> icontains (inc_note r) query
                    \<or> icontains (category_name s r) query) (incomes s))"

definition search_expense :: "string \<Rightarrow> store \<Rightarrow> expense list" where
  "search_expense query s =
     sort_desc exp_date (filter (\<lambda>r. icontains (exp_title r) query) (expenses s))"

text \<open>
  \<open>SearchAPIView.get\<close> with the parameters \<open>q\<close>, \<open>type\<close> and \<open>limit\<close>, the last one
  after \<open>int(...)\<close>.
\<close>

definition SearchAPIView_get :: "string \<Rightarrow> string \<Rightarrow> int \<Rightarrow> store \<Rightarrow> search_response" where
  "SearchAPIView_get q transaction_type limit s =
     (let query = strip q in
      if query = []
      then \<lparr>sr_http_status = 200, sr_status = ''success'', sr_results = [], sr_count = None\<rparr>
      else
        (case raising
                (if transaction_type = ''all'' \<or> transaction_type = ''income''
                 then raising (queryset_upto limit (search_income query s))
                        (\<lambda>income_results. Inr (map (income_entry s) income_results))
                 else Inr [])
                (\<lambda>results1.
                   if transaction_type = ''all'' \<or> transaction_type = ''expense''
                   then raising (queryset_upto limit (search_expense query s))
                          (\<lambda>expense_results. Inr (results1 @ map expense_entry expense_results))
                   else Inr results1) of
           Inl e \<Rightarrow>
             \<lparr>sr_http_status = 500, sr_status = ''error'', sr_results = [], sr_count = None\<rparr>
         | Inr results \<Rightarrow>
             (let sorted_results = sort_desc tx_date results
              in \<lparr>sr_http_status = 200, sr_status = ''success'',
                  sr_results = list_upto limit sorted_results,
                  sr_count = Some (length sorted_results)\<rparr>)))"

text \<open>
  The list that \<open>SearchAPIView.get\<close> builds for the type \<open>all\<close> before it sorts it: the
  first \<open>n\<close> Income matches followed by the first \<open>n\<close> Expense matches.
\<close>

definition search_merged :: "string \<Rightarrow> nat \<Rightarrow> store \<Rightarrow> entry list" where
  "search_merged query n s =
     map (income_entry s) (take n (search_income query s))
     @ map expense_entry (take n (search_expense query s))"

section \<open>Primary keys\<close>

text \<open>
  The ids of a table are pairwise different and below the next id of its sequence.
\<close>

definition income_ids_ok :: "store \<Rightarrow> bool" where
  "income_ids_ok s = (distinct (map inc_id (incomes s))
                      \<and> (\<forall>r\<in>set (incomes s). inc_id r < next_income_id s))"

definition expense_ids_ok :: "store \<Rightarrow> bool" where
  "expense_ids_ok s = (distinct (map exp_id (expenses s))
                       \<and> (\<forall>r\<in>set (expenses s). exp_id r < next_expense_id s))"

section \<open>Example data\<close>

definition salary :: category where
  "salary = \<lparr>cat_id = 1, cat_name = ''Salary'', cat_created_at = 0\<rparr>"

definition an_income :: "nat \<Rightarrow> date \<Rightarrow> income" where
  "an_income i d =
     \<lparr>inc_id = i, inc_category_id = 1, inc_source = ''Pay'', inc_amount = 100, inc_date = d,
      inc_note = [], inc_created_at = int i, inc_updated_at = int i\<rparr>"

definition an_expense :: "nat \<Rightarrow> date \<Rightarrow> expense" where
  "an_expense i d =
     \<lparr>exp_id = i, exp_title = ''Rent'', exp_amount = 40, exp_date = d,
      exp_created_at = int i, exp_updated_at = int i\<rparr>"

definition a_store :: "income list \<Rightarrow> expense list \<Rightarrow> store" where
  "a_store rows_i rows_e =
     \<lparr>categories = [salary], incomes = rows_i, expenses = rows_e,
      next_category_id = 2, next_income_id = Suc (length rows_i), next_expense_id = Suc (length rows_e)\<rparr>"

definition no_members :: transaction_body where
  "no_members = \<lparr>tb_id = None, tb_type = None, tb_amount = None, tb_description = None,
                  tb_note = None, tb_category_id = None, tb_date = None\<rparr>"

definition no_income_members :: income_body where
  "no_income_members = \<lparr>ib_category_id = None, ib_source = None, ib_amount = None,
                         ib_date = None, ib_note = None\<rparr>"

definition no_expense_members :: expense_body where
  "no_expense_members = \<lparr>eb_title = None, eb_amount = None, eb_date = None\<rparr>"

definition no_params :: list_params where
  "no_params = \<lparr>lp_search = [], lp_category = [], lp_date_from = NoDate, lp_date_to = NoDate,
                 lp_amount_min = NoText, lp_amount_max = NoText\<rparr>"

section \<open>Steps of the API handlers\<close>

lemma and_then_Ok: "and_then m f = Ok y \<longleftrightarrow> (\<exists>x. m = Ok x \<and> f x = Ok y)"
  by (cases m) auto

lemma and_then_Respond:
  "and_then m f = Respond r \<longleftrightarrow> m = Respond r \<or> (\<exists>x. m = Ok x \<and> f x = Respond r)"
  by (cases m) auto

lemma api_amount_Respond:
  "api_amount t = Respond r \<Longrightarrow> http_status r = 400 \<and> status r = ''error''"
  by (auto simp: api_amount_def error_response_def split: sum.splits if_splits)

lemma api_date_Respond:
  "api_date t = Respond r \<Longrightarrow> http_status r = 400 \<and> status r = ''error''"
  by (auto simp: api_date_def error_response_def split: sum.splits if_splits)

lemma api_amount_Ok: "api_amount t = Ok a \<longleftrightarrow> Decimal t = Inr a \<and> 0 < a"
  by (auto simp: api_amount_def split: sum.splits if_splits)

lemma api_date_Ok: "api_date t = Ok d \<longleftrightarrow> strptime t = Inr d"
  by (auto simp: api_date_def split: sum.splits if_splits)

lemma find_key: "find (\<lambda>x. key x = k) xs = Some r \<Longrightarrow> key r = k"
  by (auto simp: find_Some_iff)

lemma find_map_replace:
  "find (\<lambda>x. key x = k) xs = Some r \<Longrightarrow> key r' = k \<Longrightarrow>
   find (\<lambda>x. key x = k) (map (\<lambda>x. if key x = k then r' else x) xs) = Some r'"
  by (induction xs) (auto split: if_splits)

lemma Income_get_None: "Income_get s i = None \<longleftrightarrow> i \<notin> inc_id ` set (incomes s)"
  by (auto simp: Income_get_def find_None_iff)

lemma Expense_get_None: "Expense_get s i = None \<longleftrightarrow> i \<notin> exp_id ` set (expenses s)"
  by (auto simp: Expense_get_def find_None_iff)

section \<open>The combined transaction resource\<close>

lemma put_transaction_income_Respond:
  "put_transaction_income data r = Respond resp \<Longrightarrow> http_status resp = 400"
  by (auto simp: put_transaction_income_def and_then_Respond error_response_def
      dest: api_amount_Respond split: option.splits if_splits)

lemma put_transaction_expense_Respond:
  "put_transaction_expense data r = Respond resp \<Longrightarrow> http_status resp = 400"
  by (auto simp: put_transaction_expense_def and_then_Respond error_response_def
      dest: api_amount_Respond split: option.splits if_splits)

lemma transaction_put_404:
  "tb_id data = Some i \<Longrightarrow>
   (http_status (fst (TransactionAPIView_put now data s)) = 404)
     = (Income_get s i = None \<and> Expense_get s i = None)"
  by (auto simp: TransactionAPIView_put_def error_response_def success_response_def
      split: option.splits step.splits
      dest: put_transaction_income_Respond put_transaction_expense_Respond)

lemma transaction_put_absent:
  "tb_id data = Some i \<Longrightarrow> Income_get s i = None \<Longrightarrow> Expense_get s i = None \<Longrightarrow>
   TransactionAPIView_put now data s = (error_response 404 ''Transaction not found'', s)"
  by (simp add: TransactionAPIView_put_def)

lemma transaction_delete_404:
  "tb_id data = Some i \<Longrightarrow>
   (http_status (fst (TransactionAPIView_delete data s)) = 404)
     = (Income_get s i = None \<and> Expense_get s i = None)"
  by (auto simp: TransactionAPIView_delete_def error_response_def success_response_def
      split: option.splits)

lemma transaction_delete_absent:
  "tb_id data = Some i \<Longrightarrow> Income_get s i = None \<Longrightarrow> Expense_get s i = None \<Longrightarrow>
   TransactionAPIView_delete data s = (error_response 404 ''Transaction not found'', s)"
  by (simp add: TransactionAPIView_delete_def)

lemma transaction_put_income_first:
  "tb_id data = Some i \<Longrightarrow> Income_get s i = Some r \<Longrightarrow>
   expenses (snd (TransactionAPIView_put now data s)) = expenses s"
  by (auto simp: TransactionAPIView_put_def Income_save_def split: option.splits step.splits)

lemma transaction_put_expense_second:
  "tb_id data = Some i \<Longrightarrow> Income_get s i = None \<Longrightarrow>
   incomes (snd (TransactionAPIView_put now data s)) = incomes s"
  by (auto simp: TransactionAPIView_put_def Expense_save_def split: option.splits step.splits)

lemma transaction_delete_income_first:
  "tb_id data = Some i \<Longrightarrow> Income_get s i = Some r \<Longrightarrow>
   TransactionAPIView_delete data s =
     (success_response 200 ''Income transaction deleted successfully'',
      s\<lparr>incomes := filter (\<lambda>x. inc_id x \<noteq> i) (incomes s)\<rparr>)"
  by (auto simp: TransactionAPIView_delete_def Income_delete_def Income_get_def
      dest: find_key split: option.splits)

lemma transaction_delete_expense_second:
  "tb_id data = Some i \<Longrightarrow> Income_get s i = None \<Longrightarrow> Expense_get s i = Some e \<Longrightarrow>
   TransactionAPIView_delete data s =
     (success_response 200 ''Expense transaction deleted successfully'',
      s\<lparr>expenses := filter (\<lambda>x. exp_id x \<noteq> i) (expenses s)\<rparr>)"
  by (auto simp: TransactionAPIView_delete_def Expense_delete_def Expense_get_def
      dest: find_key split: option.splits)

lemma put_transaction_income_valid:
  assumes "tb_amount data = None \<or> (\<exists>a. tb_amount data = Some (Numeric a) \<and> 0 < a)"
      and "tb_description data = None \<or> (\<exists>d. tb_description data = Some d \<and> strip d \<noteq> [])"
  shows "put_transaction_income data r =
           Ok (r\<lparr>inc_amount := (case tb_amount data of Some (Numeric a) \<Rightarrow> a | _ \<Rightarrow> inc_amount r),
                 inc_source := (case tb_description data of Some d \<Rightarrow> strip d
                                | None \<Rightarrow> inc_source r)\<rparr>)"
  using assms by (auto simp: put_transaction_income_def api_amount_def)

lemma put_transaction_income_invalid:
  assumes "\<not> ((tb_amount data = None \<or> (\<exists>a. tb_amount data = Some (Numeric a) \<and> 0 < a))
            \<and> (tb_description data = None
                \<or> (\<exists>d. tb_description data = Some d \<and> strip d \<noteq> [])))"
  shows "(\<exists>resp. put_transaction_income data r = Respond resp \<and> status resp = ''error'')
       \<or> (\<exists>e. put_transaction_income data r = Raise e)"
proof (cases "tb_amount data")
  case None
  then show ?thesis using assms
    by (auto simp: put_transaction_income_def error_response_def)
next
  case (Some t)
  then show ?thesis using assms
    by (cases t; cases "tb_description data")
       (auto simp: put_transaction_income_def api_amount_def error_response_def)
qed

lemma put_transaction_expense_valid:
  assumes "tb_amount data = None \<or> (\<exists>a. tb_amount data = Some (Numeric a) \<and> 0 < a)"
      and "tb_description data = None \<or> (\<exists>d. tb_description data = Some d \<and> strip d \<noteq> [])"
  shows "put_transaction_expense data r =
           Ok (r\<lparr>exp_amount := (case tb_amount data of Some (Numeric a) \<Rightarrow> a | _ \<Rightarrow> exp_amount r),
                 exp_title := (case tb_description data of Some d \<Rightarrow> strip d
                               | None \<Rightarrow> exp_title r)\<rparr>)"
  using assms by (auto simp: put_transaction_expense_def api_amount_def)

lemma put_transaction_expense_invalid:
  assumes "\<not> ((tb_amount data = None \<or> (\<exists>a. tb_amount data = Some (Numeric a) \<and> 0 < a))
            \<and> (tb_description data = None
                \<or> (\<exists>d. tb_description data = Some d \<and> strip d \<noteq> [])))"
  shows "(\<exists>resp. put_transaction_expense data r = Respond resp \<and> status resp = ''error'')
       \<or> (\<exists>e. put_transaction_expense data r = Raise e)"
proof (cases "tb_amount data")
  case None
  then show ?thesis using assms
    by (auto simp: put_transaction_expense_def error_response_def)
next
  case (Some t)
  then show ?thesis using assms
    by (cases t; cases "tb_description data")
       (auto simp: put_transaction_expense_def api_amount_def error_response_def)
qed

lemma transaction_put_income_valid:
  assumes "tb_id data = Some i" and "Income_get s i = Some r"
      and "tb_amount data = None \<or> (\<exists>a. tb_amount data = Some (Numeric a) \<and> 0 < a)"
      and "tb_description data = None \<or> (\<exists>d. tb_description data = Some d \<and> strip d \<noteq> [])"
  shows "TransactionAPIView_put now data s =
     (success_response 200 ''Income transaction updated successfully'',
      s\<lparr>incomes := map (\<lambda>x. if inc_id x = i
          then r\<lparr>inc_amount := (case tb_amount data of Some (Numeric a) \<Rightarrow> a | _ \<Rightarrow> inc_amount r),
                 inc_source := (case tb_description data of Some d \<Rightarrow> strip d
                                | None \<Rightarrow> inc_source r),
                 inc_updated_at := now\<rparr>
          else x) (incomes s)\<rparr>)"
proof -
  have k: "inc_id r = i" using assms(2) unfolding Income_get_def by (rule find_key)
  show ?thesis
    using assms(1,2) k
    by (simp add: TransactionAPIView_put_def put_transaction_income_valid[OF assms(3,4)]
        Income_save_def)
qed

lemma transaction_put_income_invalid:
  assumes "tb_id data = Some i" and "Income_get s i = Some r"
      and "\<not> ((tb_amount data = None \<or> (\<exists>a. tb_amount data = Some (Numeric a) \<and> 0 < a))
            \<and> (tb_description data = None
                \<or> (\<exists>d. tb_description data = Some d \<and> strip d \<noteq> [])))"
  shows "status (fst (TransactionAPIView_put now data s)) = ''error''
       \<and> snd (TransactionAPIView_put now data s) = s"
  using assms(1,2) put_transaction_income_invalid[OF assms(3), of r]
  by (auto simp: TransactionAPIView_put_def error_response_def)

lemma transaction_put_expense_valid:
  assumes "tb_id data = Some i" and "Income_get s i = None" and "Expense_get s i = Some r"
      and "tb_amount data = None \<or> (\<exists>a. tb_amount data = Some (Numeric a) \<and> 0 < a)"
      and "tb_description data = None \<or> (\<exists>d. tb_description data = Some d \<and> strip d \<noteq> [])"
  shows "TransactionAPIView_put now data s =
     (success_response 200 ''Expense transaction updated successfully'',
      s\<lparr>expenses := map (\<lambda>x. if exp_id x = i
          then r\<lparr>exp_amount := (case tb_amount data of Some (Numeric a) \<Rightarrow> a | _ \<Rightarrow> exp_amount r),
                 exp_title := (case tb_description data of Some d \<Rightarrow> strip d
                               | None \<Rightarrow> exp_title r),
                 exp_updated_at := now\<rparr>
          else x) (expenses s)\<rparr>)"
proof -
  have k: "exp_id r = i" using assms(3) unfolding Expense_get_def by (rule find_key)
  show ?thesis
    using assms(1,2,3) k
    by (simp add: TransactionAPIView_put_def put_transaction_expense_valid[OF assms(4,5)]
        Expense_save_def)
qed

lemma transaction_put_expense_invalid:
  assumes "tb_id data = Some i" and "Income_get s i = None" and "Expense_get s i = Some r"
      and "\<not> ((tb_amount data = None \<or> (\<exists>a. tb_amount data = Some (Numeric a) \<and> 0 < a))
            \<and> (tb_description data = None
                \<or> (\<exists>d. tb_description data = Some d \<and> strip d \<noteq> [])))"
  shows "status (fst (TransactionAPIView_put now data s)) = ''error''
       \<and> snd (TransactionAPIView_put now data s) = s"
  using assms(1,2,3) put_transaction_expense_invalid[OF assms(4), of r]
  by (auto simp: TransactionAPIView_put_def error_response_def)

text \<open>
  Claim C5.  An update or a delete by id on \<open>/api/transactions/\<close> looks the id up among
  the Income rows first and among the Expense rows only when no Income row has it.  The
  answer is 404 with status \<open>error\<close>, and nothing changes, exactly when neither table has
  the id.  When an Income row has the id, the request is handled as that Income row, also
  where an Expense row carries the same id: a delete removes the Income row, and an update
  with a valid amount and description (each absent, or a positive number and a text that
  is not blank) writes them to the Income row, refreshes its \<open>updated_at\<close> and answers
  that the Income was updated, while any other update is answered with an error and
  changes nothing; the Expense table is left as it is.  When only an Expense row has the
  id, the same is done to that Expense row.
\<close>

theorem transaction_probe_income_then_expense:
  assumes "tb_id data = Some i"
  shows
    "(http_status (fst (TransactionAPIView_put now data s)) = 404
        \<longleftrightarrow> i \<notin> inc_id ` set (incomes s) \<and> i \<notin> exp_id ` set (expenses s))
     \<and> (http_status (fst (TransactionAPIView_delete data s)) = 404
        \<longleftrightarrow> i \<notin> inc_id ` set (incomes s) \<and> i \<notin> exp_id ` set (expenses s))
     \<and> (i \<notin> inc_id ` set (incomes s) \<and> i \<notin> exp_id ` set (expenses s) \<longrightarrow>
          TransactionAPIView_put now data s = (error_response 404 ''Transaction not found'', s)
          \<and> TransactionAPIView_delete data s = (error_response 404 ''Transaction not found'', s))
     \<and> (i \<in> inc_id ` set (incomes s) \<longrightarrow>
          expenses (snd (TransactionAPIView_put now data s)) = expenses s
          \<and> TransactionAPIView_delete data s =
              (success_response 200 ''Income transaction deleted successfully'',
               s\<lparr>incomes := filter (\<lambda>x. inc_id x \<noteq> i) (incomes s)\<rparr>))
     \<and> (i \<notin> inc_id ` set (incomes s) \<longrightarrow>
          incomes (snd (TransactionAPIView_put now data s)) = incomes s)
     \<and> (i \<notin> inc_id ` set (incomes s) \<and> i \<in> exp_id ` set (expenses s) \<longrightarrow>
          TransactionAPIView_delete data s =
            (success_response 200 ''Expense transaction deleted successfully'',
             s\<lparr>expenses := filter (\<lambda>x. exp_id x \<noteq> i) (expenses s)\<rparr>))
     \<and> (i \<in> inc_id ` set (incomes s) \<longleftrightarrow> (\<exists>r. Income_get s i = Some r))
     \<and> (i \<in> exp_id ` set (expenses s) \<longleftrightarrow> (\<exists>e. Expense_get s i = Some e))
     \<and> (\<forall>r. Income_get s i = Some r \<longrightarrow>
          (if (tb_amount data = None \<or> (\<exists>a. tb_amount data = Some (Numeric a) \<and> 0 < a))
                \<and> (tb_description data = None
                    \<or> (\<exists>d. tb_description data = Some d \<and> strip d \<noteq> []))
           then TransactionAPIView_put now data s =
                  (success_response 200 ''Income transaction updated successfully'',
                   s\<lparr>incomes := map (\<lambda>x. if inc_id x = i
                       then r\<lparr>inc_amount := (case tb_amount data of Some (Numeric a) \<Rightarrow> a
                                               | _ \<Rightarrow> inc_amount r),
                              inc_source := (case tb_description data of Some d \<Rightarrow> strip d
                                             | None \<Rightarrow> inc_source r),
                              inc_updated_at := now\<rparr>
                       else x) (incomes s)\<rparr>)
           else status (fst (TransactionAPIView_put now data s)) = ''error''
                \<and> snd (TransactionAPIView_put now data s) = s))
     \<and> (\<forall>e. Income_get s i = None \<and> Expense_get s i = Some e \<longrightarrow>
          (if (tb_amount data = None \<or> (\<exists>a. tb_amount data = Some (Numeric a) \<and> 0 < a))
                \<and> (tb_description data = None
                    \<or> (\<exists>d. tb_description data = Some d \<and> strip d \<noteq> []))
           then TransactionAPIView_put now data s =
                  (success_response 200 ''Expense transaction updated successfully'',
                   s\<lparr>expenses := map (\<lambda>x. if exp_id x = i
                       then e\<lparr>exp_amount := (case tb_amount data of Some (Numeric a) \<Rightarrow> a
                                               | _ \<Rightarrow> exp_amount e),
                              exp_title := (case tb_description data of Some d \<Rightarrow> strip d
                                            | None \<Rightarrow> exp_title e),
                              exp_updated_at := now\<rparr>
                       else x) (expenses s)\<rparr>)
           else status (fst (TransactionAPIView_put now data s)) = ''error''
                \<and> snd (TransactionAPIView_put now data s) = s))"
proof -
  have inc: "i \<in> inc_id ` set (incomes s) \<longleftrightarrow> (\<exists>r. Income_get s i = Some r)"
    using Income_get_None[of s i] by auto
  have exp: "i \<in> exp_id ` set (expenses s) \<longleftrightarrow> (\<exists>r. Expense_get s i = Some r)"
    using Expense_get_None[of s i] by auto
  have old: "(http_status (fst (TransactionAPIView_put now data s)) = 404
        \<longleftrightarrow> i \<notin> inc_id ` set (incomes s) \<and> i \<notin> exp_id ` set (expenses s))
     \<and> (http_status (fst (TransactionAPIView_delete data s)) = 404
        \<longleftrightarrow> i \<notin> inc_id ` set (incomes s) \<and> i \<notin> exp_id ` set (expenses s))
     \<and> (i \<notin> inc_id ` set (incomes s) \<and> i \<notin> exp_id ` set (expenses s) \<longrightarrow>
          TransactionAPIView_put now data s = (error_response 404 ''Transaction not found'', s)
          \<and> TransactionAPIView_delete data s = (error_response 404 ''Transaction not found'', s))
     \<and> (i \<in> inc_id ` set (incomes s) \<longrightarrow>
          expenses (snd (TransactionAPIView_put now data s)) = expenses s
          \<and> TransactionAPIView_delete data s =
              (success_response 200 ''Income transaction deleted successfully'',
               s\<lparr>incomes := filter (\<lambda>x. inc_id x \<noteq> i) (incomes s)\<rparr>))
     \<and> (i \<notin> inc_id ` set (incomes s) \<longrightarrow>
          incomes (snd (TransactionAPIView_put now data s)) = incomes s)
     \<and> (i \<notin> inc_id ` set (incomes s) \<and> i \<in> exp_id ` set (expenses s) \<longrightarrow>
          TransactionAPIView_delete data s =
            (success_response 200 ''Expense transaction deleted successfully'',
             s\<lparr>expenses := filter (\<lambda>x. exp_id x \<noteq> i) (expenses s)\<rparr>))"
    unfolding inc exp
    using assms transaction_put_404[OF assms, of now s] transaction_delete_404[OF assms, of s]
      transaction_put_absent[OF assms, of s now] transaction_delete_absent[OF assms, of s]
      transaction_put_income_first[OF assms, of s _ now]
      transaction_put_expense_second[OF assms, of s now]
      transaction_delete_income_first[OF assms, of s]
      transaction_delete_expense_second[OF assms, of s]
    by auto
  have pi: "(\<forall>r. Income_get s i = Some r \<longrightarrow>
          (if (tb_amount data = None \<or> (\<exists>a. tb_amount data = Some (Numeric a) \<and> 0 < a))
                \<and> (tb_description data = None
                    \<or> (\<exists>d. tb_description data = Some d \<and> strip d \<noteq> []))
           then TransactionAPIView_put now data s =
                  (success_response 200 ''Income transaction updated successfully'',
                   s\<lparr>incomes := map (\<lambda>x. if inc_id x = i
                       then r\<lparr>inc_amount := (case tb_amount data of Some (Numeric a) \<Rightarrow> a
                                               | _ \<Rightarrow> inc_amount r),
                              inc_source := (case tb_description data of Some d \<Rightarrow> strip d
                                             | None \<Rightarrow> inc_source r),
                              inc_updated_at := now\<rparr>
                       else x) (incomes s)\<rparr>)
           else status (fst (TransactionAPIView_put now data s)) = ''error''
                \<and> snd (TransactionAPIView_put now data s) = s))"
  proof (intro allI impI)
    fix r assume g: "Income_get s i = Some r"
    show "if (tb_amount data = None \<or> (\<exists>a. tb_amount data = Some (Numeric a) \<and> 0 < a))
                \<and> (tb_description data = None
                    \<or> (\<exists>d. tb_description data = Some d \<and> strip d \<noteq> []))
           then TransactionAPIView_put now data s =
                  (success_response 200 ''Income transaction updated successfully'',
                   s\<lparr>incomes := map (\<lambda>x. if inc_id x = i
                       then r\<lparr>inc_amount := (case tb_amount data of Some (Numeric a) \<Rightarrow> a
                                               | _ \<Rightarrow> inc_amount r),
                              inc_source := (case tb_description data of Some d \<Rightarrow> strip d
                                             | None \<Rightarrow> inc_source r),
                              inc_updated_at := now\<rparr>
                       else x) (incomes s)\<rparr>)
           else status (fst (TransactionAPIView_put now data s)) = ''error''
                \<and> snd (TransactionAPIView_put now data s) = s"
    proof (cases "(tb_amount data = None \<or> (\<exists>a. tb_amount data = Some (Numeric a) \<and> 0 < a))
                \<and> (tb_description data = None
                    \<or> (\<exists>d. tb_description data = Some d \<and> strip d \<noteq> []))")
      case True
      show ?thesis
        by (rule iffD2[OF if_P[OF True]])
           (rule transaction_put_income_valid[OF assms g conjunct1[OF True] conjunct2[OF True]])
    next
      case False
      show ?thesis
        by (rule iffD2[OF if_not_P[OF False]])
           (rule transaction_put_income_invalid[OF assms g False])
    qed
  qed
  have pe: "(\<forall>e. Income_get s i = None \<and> Expense_get s i = Some e \<longrightarrow>
          (if (tb_amount data = None \<or> (\<exists>a. tb_amount data = Some (Numeric a) \<and> 0 < a))
                \<and> (tb_description data = None
                    \<or> (\<exists>d. tb_description data = Some d \<and> strip d \<noteq> []))
           then TransactionAPIView_put now data s =
                  (success_response 200 ''Expense transaction updated successfully'',
                   s\<lparr>expenses := map (\<lambda>x. if exp_id x = i
                       then e\<lparr>exp_amount := (case tb_amount data of Some (Numeric a) \<Rightarrow> a
                                               | _ \<Rightarrow> exp_amount e),
                              exp_title := (case tb_description data of Some d \<Rightarrow> strip d
                                            | None \<Rightarrow> exp_title e),
                              exp_updated_at := now\<rparr>
                       else x) (expenses s)\<rparr>)
           else status (fst (TransactionAPIView_put now data s)) = ''error''
                \<and> snd (TransactionAPIView_put now data s) = s))"
  proof (intro allI impI)
    fix e assume g: "Income_get s i = None \<and> Expense_get s i = Some e"
    show "if (tb_amount data = None \<or> (\<exists>a. tb_amount data = Some (Numeric a) \<and> 0 < a))
                \<and> (tb_description data = None
                    \<or> (\<exists>d. tb_description data = Some d \<and> strip d \<noteq> []))
           then TransactionAPIView_put now data s =
                  (success_response 200 ''Expense transaction updated successfully'',
                   s\<lparr>expenses := map (\<lambda>x. if exp_id x = i
                       then e\<lparr>exp_amount := (case tb_amount data of Some (Numeric a) \<Rightarrow> a
                                               | _ \<Rightarrow> exp_amount e),
                              exp_title := (case tb_description data of Some d \<Rightarrow> strip d
                                            | None \<Rightarrow> exp_title e),
                              exp_updated_at := now\<rparr>
                       else x) (expenses s)\<rparr>)
           else status (fst (TransactionAPIView_put now data s)) = ''error''
                \<and> snd (TransactionAPIView_put now data s) = s"
    proof (cases "(tb_amount data = None \<or> (\<exists>a. tb_amount data = Some (Numeric a) \<and> 0 < a))
                \<and> (tb_description data = None
                    \<or> (\<exists>d. tb_description data = Some d \<and> strip d \<noteq> []))")
      case True
      show ?thesis
        by (rule iffD2[OF if_P[OF True]])
           (rule transaction_put_expense_valid[OF assms conjunct1[OF g] conjunct2[OF g]
                   conjunct1[OF True] conjunct2[OF True]])
    next
      case False
      show ?thesis
        by (rule iffD2[OF if_not_P[OF False]])
           (rule transaction_put_expense_invalid[OF assms conjunct1[OF g] conjunct2[OF g] False])
    qed
  qed
  show ?thesis using old inc exp pi pe by (intro conjI) blast+
qed

theorem transaction_probe_witness:
  "tb_id (no_members\<lparr>tb_id := Some 1\<rparr>) = Some 1
   \<and> 1 \<in> inc_id ` set (incomes (a_store [an_income 1 (2026, 1, 5)] [an_expense 1 (2026, 1, 6)]))
   \<and> 1 \<in> exp_id ` set (expenses (a_store [an_income 1 (2026, 1, 5)] [an_expense 1 (2026, 1, 6)]))
   \<and> TransactionAPIView_delete (no_members\<lparr>tb_id := Some 1\<rparr>)
        (a_store [an_income 1 (2026, 1, 5)] [an_expense 1 (2026, 1, 6)])
      = (success_response 200 ''Income transaction deleted successfully'',
         a_store [] [an_expense 1 (2026, 1, 6)]\<lparr>next_income_id := 2\<rparr>)
   \<and> expenses (snd (TransactionAPIView_put 9 (no_members\<lparr>tb_id := Some 1\<rparr>)
        (a_store [an_income 1 (2026, 1, 5)] [an_expense 1 (2026, 1, 6)])))
      = [an_expense 1 (2026, 1, 6)]
   \<and> http_status (fst (TransactionAPIView_put 9 (no_members\<lparr>tb_id := Some 2\<rparr>)
        (a_store [an_income 1 (2026, 1, 5)] [an_expense 1 (2026, 1, 6)]))) = 404
   \<and> Income_get (a_store [an_income 1 (2026, 1, 5)] [an_expense 1 (2026, 1, 6)]) 1
      = Some (an_income 1 (2026, 1, 5))
   \<and> TransactionAPIView_put 9
        (no_members\<lparr>tb_id := Some 1, tb_amount := Some (Numeric 75),
                     tb_description := Some '' Bonus ''\<rparr>)
        (a_store [an_income 1 (2026, 1, 5)] [an_expense 1 (2026, 1, 6)])
      = (success_response 200 ''Income transaction updated successfully'',
         a_store [(an_income 1 (2026, 1, 5))\<lparr>inc_amount := 75, inc_source := ''Bonus'',
                                             inc_updated_at := 9\<rparr>]
                 [an_expense 1 (2026, 1, 6)])
   \<and> TransactionAPIView_put 9
        (no_members\<lparr>tb_id := Some 1, tb_amount := Some (Numeric 0)\<rparr>)
        (a_store [an_income 1 (2026, 1, 5)] [an_expense 1 (2026, 1, 6)])
      = (error_response 400 ''Amount must be greater than zero'',
         a_store [an_income 1 (2026, 1, 5)] [an_expense 1 (2026, 1, 6)])"
proof -
  let ?s = "a_store [an_income 1 (2026, 1, 5)] [an_expense 1 (2026, 1, 6)]"
  let ?d = "no_members\<lparr>tb_id := Some 1, tb_amount := Some (Numeric 75),
                     tb_description := Some '' Bonus ''\<rparr>"
  have g: "Income_get ?s 1 = Some (an_income 1 (2026, 1, 5))"
    by (simp add: Income_get_def a_store_def an_income_def)
  have i: "tb_id ?d = Some 1" by (simp add: no_members_def)
  have v: "(tb_amount ?d = None \<or> (\<exists>a. tb_amount ?d = Some (Numeric a) \<and> 0 < a))
         \<and> (tb_description ?d = None \<or> (\<exists>d. tb_description ?d = Some d \<and> strip d \<noteq> []))"
    by (simp add: no_members_def strip_def is_space_def)
  have st: "strip '' Bonus '' = ''Bonus''" by (simp add: strip_def is_space_def)
  from transaction_probe_income_then_expense[OF i, of 9 ?s] g v
  have p: "TransactionAPIView_put 9 ?d ?s
      = (success_response 200 ''Income transaction updated successfully'',
         ?s\<lparr>incomes := map (\<lambda>x. if inc_id x = 1
               then (an_income 1 (2026, 1, 5))\<lparr>inc_amount := 75, inc_source := ''Bonus'',
                                               inc_updated_at := 9\<rparr>
               else x) (incomes ?s)\<rparr>)"
    by (simp add: no_members_def st)
  have q: "TransactionAPIView_put 9 (no_members\<lparr>tb_id := Some 1, tb_amount := Some (Numeric 0)\<rparr>) ?s
      = (error_response 400 ''Amount must be greater than zero'', ?s)"
    by (simp add: TransactionAPIView_put_def Income_get_def put_transaction_income_def
        api_amount_def no_members_def a_store_def an_income_def)
  have p': "TransactionAPIView_put 9 ?d ?s
      = (success_response 200 ''Income transaction updated successfully'',
         a_store [(an_income 1 (2026, 1, 5))\<lparr>inc_amount := 75, inc_source := ''Bonus'',
                                             inc_updated_at := 9\<rparr>]
                 [an_expense 1 (2026, 1, 6)])"
    unfolding p by (simp add: a_store_def an_income_def)
  from transaction_probe_income_then_expense
          [of "no_members\<lparr>tb_id := Some 1\<rparr>" 1 9 ?s]
        transaction_probe_income_then_expense
          [of "no_members\<lparr>tb_id := Some 2\<rparr>" 2 9 ?s]
  have r: "tb_id (no_members\<lparr>tb_id := Some 1\<rparr>) = Some 1
   \<and> 1 \<in> inc_id ` set (incomes ?s)
   \<and> 1 \<in> exp_id ` set (expenses ?s)
   \<and> TransactionAPIView_delete (no_members\<lparr>tb_id := Some 1\<rparr>) ?s
      = (success_response 200 ''Income transaction deleted successfully'',
         a_store [] [an_expense 1 (2026, 1, 6)]\<lparr>next_income_id := 2\<rparr>)
   \<and> expenses (snd (TransactionAPIView_put 9 (no_members\<lparr>tb_id := Some 1\<rparr>) ?s))
      = [an_expense 1 (2026, 1, 6)]
   \<and> http_status (fst (TransactionAPIView_put 9 (no_members\<lparr>tb_id := Some 2\<rparr>) ?s)) = 404"
    by (simp add: no_members_def a_store_def an_income_def an_expense_def error_response_def)
  show ?thesis using r g p' q by simp
qed

section \<open>Partial updates\<close>

lemma put_income_category_Ok:
  "put_income_category data s r = Ok r1 \<Longrightarrow>
   inc_category_id r1 = (case ib_category_id data of None \<Rightarrow> inc_category_id r | Some c \<Rightarrow> c)
   \<and> inc_id r1 = inc_id r \<and> inc_source r1 = inc_source r \<and> inc_amount r1 = inc_amount r
   \<and> inc_date r1 = inc_date r \<and> inc_note r1 = inc_note r
   \<and> inc_created_at r1 = inc_created_at r \<and> inc_updated_at r1 = inc_updated_at r"
  by (auto simp: put_income_category_def Category_get_def dest: find_key split: option.splits)

lemma put_income_source_Ok:
  "put_income_source data r = Ok r1 \<Longrightarrow>
   inc_source r1 = (case ib_source data of None \<Rightarrow> inc_source r | Some t \<Rightarrow> strip t)
   \<and> inc_id r1 = inc_id r \<and> inc_category_id r1 = inc_category_id r \<and> inc_amount r1 = inc_amount r
   \<and> inc_date r1 = inc_date r \<and> inc_note r1 = inc_note r
   \<and> inc_created_at r1 = inc_created_at r \<and> inc_updated_at r1 = inc_updated_at r"
  by (auto simp: put_income_source_def split: option.splits if_splits)

lemma put_income_amount_Ok:
  "put_income_amount data r = Ok r1 \<Longrightarrow>
   (case ib_amount data of None \<Rightarrow> inc_amount r1 = inc_amount r
    | Some t \<Rightarrow> Decimal t = Inr (inc_amount r1))
   \<and> inc_id r1 = inc_id r \<and> inc_category_id r1 = inc_category_id r \<and> inc_source r1 = inc_source r
   \<and> inc_date r1 = inc_date r \<and> inc_note r1 = inc_note r
   \<and> inc_created_at r1 = inc_created_at r \<and> inc_updated_at r1 = inc_updated_at r"
  by (auto simp: put_income_amount_def and_then_Ok api_amount_Ok split: option.splits)

lemma put_income_date_Ok:
  "put_income_date data r = Ok r1 \<Longrightarrow>
   (case ib_date data of None \<Rightarrow> inc_date r1 = inc_date r
    | Some t \<Rightarrow> strptime t = Inr (inc_date r1))
   \<and> inc_id r1 = inc_id r \<and> inc_category_id r1 = inc_category_id r \<and> inc_source r1 = inc_source r
   \<and> inc_amount r1 = inc_amount r \<and> inc_note r1 = inc_note r
   \<and> inc_created_at r1 = inc_created_at r \<and> inc_updated_at r1 = inc_updated_at r"
  by (auto simp: put_income_date_def and_then_Ok api_date_Ok split: option.splits)

lemma put_income_note_Ok:
  "put_income_note data r = Ok r1 \<Longrightarrow>
   inc_note r1 = (case ib_note data of None \<Rightarrow> inc_note r | Some t \<Rightarrow> strip t)
   \<and> inc_id r1 = inc_id r \<and> inc_category_id r1 = inc_category_id r \<and> inc_source r1 = inc_source r
   \<and> inc_amount r1 = inc_amount r \<and> inc_date r1 = inc_date r
   \<and> inc_created_at r1 = inc_created_at r \<and> inc_updated_at r1 = inc_updated_at r"
  by (auto simp: put_income_note_def split: option.splits)

lemma put_income_fields_Ok:
  assumes "put_income_fields data s r = Ok r'"
  shows "inc_id r' = inc_id r \<and> inc_created_at r' = inc_created_at r
     \<and> inc_updated_at r' = inc_updated_at r
     \<and> inc_category_id r' = (case ib_category_id data of None \<Rightarrow> inc_category_id r | Some c \<Rightarrow> c)
     \<and> inc_source r' = (case ib_source data of None \<Rightarrow> inc_source r | Some t \<Rightarrow> strip t)
     \<and> (case ib_amount data of None \<Rightarrow> inc_amount r' = inc_amount r
         | Some t \<Rightarrow> Decimal t = Inr (inc_amount r'))
     \<and> (case ib_date data of None \<Rightarrow> inc_date r' = inc_date r
         | Some t \<Rightarrow> strptime t = Inr (inc_date r'))
     \<and> inc_note r' = (case ib_note data of None \<Rightarrow> inc_note r | Some t \<Rightarrow> strip t)"
proof -
  from assms obtain i1 i2 i3 i4 where
    1: "put_income_category data s r = Ok i1" and
    2: "put_income_source data i1 = Ok i2" and
    3: "put_income_amount data i2 = Ok i3" and
    4: "put_income_date data i3 = Ok i4" and
    5: "put_income_note data i4 = Ok r'"
    unfolding put_income_fields_def and_then_Ok by blast
  show ?thesis
    using put_income_category_Ok[OF 1] put_income_source_Ok[OF 2] put_income_amount_Ok[OF 3]
      put_income_date_Ok[OF 4] put_income_note_Ok[OF 5]
    by (simp split: option.splits)
qed

lemma put_income_fields_Respond:
  assumes "put_income_fields data s r = Respond resp"
  shows "http_status resp = 400"
proof -
  have "put_income_category data s r = Respond resp
      \<or> (\<exists>i. put_income_source data i = Respond resp)
      \<or> (\<exists>i. put_income_amount data i = Respond resp)
      \<or> (\<exists>i. put_income_date data i = Respond resp)
      \<or> (\<exists>i. put_income_note data i = Respond resp)"
    using assms unfolding put_income_fields_def and_then_Respond by blast
  then show ?thesis
    by (auto simp: and_then_Respond error_response_def
      put_income_category_def put_income_source_def put_income_amount_def put_income_date_def
      put_income_note_def
      dest: api_amount_Respond api_date_Respond split: option.splits if_splits)
qed

lemma IncomeAPIView_put_cases:
  assumes "Income_get s pk = Some r"
  shows "(\<exists>r'. put_income_fields data s r = Ok r' \<and>
            IncomeAPIView_put now pk data s =
              (success_response 200 ''Income transaction updated successfully'',
               Income_save now r' s))
       \<or> (http_status (fst (IncomeAPIView_put now pk data s)) \<noteq> 200
           \<and> snd (IncomeAPIView_put now pk data s) = s)"
  using assms
  by (cases "put_income_fields data s r")
     (auto simp: IncomeAPIView_put_def error_response_def dest: put_income_fields_Respond)

lemma Income_save_get:
  assumes "Income_get s pk = Some r" and "inc_id r' = inc_id r"
  shows "Income_get (Income_save now r' s) pk = Some (r'\<lparr>inc_updated_at := now\<rparr>)"
proof -
  have k: "inc_id r = pk" using assms(1) unfolding Income_get_def by (rule find_key)
  have "find (\<lambda>x. inc_id x = pk)
          (map (\<lambda>x. if inc_id x = pk then r'\<lparr>inc_updated_at := now\<rparr> else x) (incomes s))
        = Some (r'\<lparr>inc_updated_at := now\<rparr>)"
    using assms k by (intro find_map_replace) (simp_all add: Income_get_def)
  then show ?thesis using assms(2) k by (simp add: Income_get_def Income_save_def)
qed

lemma income_put_200:
  assumes g: "Income_get s pk = Some r"
      and p: "IncomeAPIView_put now pk data s = (resp, s')"
      and c: "http_status resp = 200"
  shows "\<exists>r'. Income_get s' pk = Some r'
     \<and> s' = s\<lparr>incomes := map (\<lambda>x. if inc_id x = pk then r' else x) (incomes s)\<rparr>
     \<and> inc_id r' = inc_id r \<and> inc_created_at r' = inc_created_at r
     \<and> inc_updated_at r' = now
     \<and> (inc_updated_at r < now \<longrightarrow> inc_updated_at r < inc_updated_at r')
     \<and> inc_category_id r' = (case ib_category_id data of None \<Rightarrow> inc_category_id r | Some c \<Rightarrow> c)
     \<and> inc_source r' = (case ib_source data of None \<Rightarrow> inc_source r | Some t \<Rightarrow> strip t)
     \<and> (case ib_amount data of None \<Rightarrow> inc_amount r' = inc_amount r
         | Some t \<Rightarrow> Decimal t = Inr (inc_amount r'))
     \<and> (case ib_date data of None \<Rightarrow> inc_date r' = inc_date r
         | Some t \<Rightarrow> strptime t = Inr (inc_date r'))
     \<and> inc_note r' = (case ib_note data of None \<Rightarrow> inc_note r | Some t \<Rightarrow> strip t)"
proof -
  from IncomeAPIView_put_cases[OF g, of data now] p c
  obtain r1 where r1: "put_income_fields data s r = Ok r1" and s': "s' = Income_save now r1 s"
    by auto
  note f = put_income_fields_Ok[OF r1]
  have k: "inc_id r = pk" using g unfolding Income_get_def by (rule find_key)
  let ?r' = "r1\<lparr>inc_updated_at := now\<rparr>"
  have "Income_get s' pk = Some ?r'"
    unfolding s' using g f by (intro Income_save_get) simp_all
  moreover have "s' = s\<lparr>incomes := map (\<lambda>x. if inc_id x = pk then ?r' else x) (incomes s)\<rparr>"
    unfolding s' using f k by (simp add: Income_save_def)
  ultimately show ?thesis using f by (intro exI[of _ ?r']) (simp split: option.splits)
qed

lemma income_put_not_200:
  assumes g: "Income_get s pk = Some r"
      and p: "IncomeAPIView_put now pk data s = (resp, s')"
      and c: "http_status resp \<noteq> 200"
  shows "s' = s"
  using IncomeAPIView_put_cases[OF g, of data now] p c by (auto simp: success_response_def)

lemma put_expense_title_Ok:
  "put_expense_title data r = Ok r1 \<Longrightarrow>
   exp_title r1 = (case eb_title data of None \<Rightarrow> exp_title r | Some t \<Rightarrow> strip t)
   \<and> exp_id r1 = exp_id r \<and> exp_amount r1 = exp_amount r \<and> exp_date r1 = exp_date r
   \<and> exp_created_at r1 = exp_created_at r \<and> exp_updated_at r1 = exp_updated_at r"
  by (auto simp: put_expense_title_def split: option.splits if_splits)

lemma put_expense_amount_Ok:
  "put_expense_amount data r = Ok r1 \<Longrightarrow>
   (case eb_amount data of None \<Rightarrow> exp_amount r1 = exp_amount r
    | Some t \<Rightarrow> Decimal t = Inr (exp_amount r1))
   \<and> exp_id r1 = exp_id r \<and> exp_title r1 = exp_title r \<and> exp_date r1 = exp_date r
   \<and> exp_created_at r1 = exp_created_at r \<and> exp_updated_at r1 = exp_updated_at r"
  by (auto simp: put_expense_amount_def and_then_Ok api_amount_Ok split: option.splits)

lemma put_expense_date_Ok:
  "put_expense_date data r = Ok r1 \<Longrightarrow>
   (case eb_date data of None \<Rightarrow> exp_date r1 = exp_date r
    | Some t \<Rightarrow> strptime t = Inr (exp_date r1))
   \<and> exp_id r1 = exp_id r \<and> exp_title r1 = exp_title r \<and> exp_amount r1 = exp_amount r
   \<and> exp_created_at r1 = exp_created_at r \<and> exp_updated_at r1 = exp_updated_at r"
  by (auto simp: put_expense_date_def and_then_Ok api_date_Ok split: option.splits)

lemma put_expense_fields_Ok:
  assumes "put_expense_fields data r = Ok r'"
  shows "exp_id r' = exp_id r \<and> exp_created_at r' = exp_created_at r
     \<and> exp_updated_at r' = exp_updated_at r
     \<and> exp_title r' = (case eb_title data of None \<Rightarrow> exp_title r | Some t \<Rightarrow> strip t)
     \<and> (case eb_amount data of None \<Rightarrow> exp_amount r' = exp_amount r
         | Some t \<Rightarrow> Decimal t = Inr (exp_amount r'))
     \<and> (case eb_date data of None \<Rightarrow> exp_date r' = exp_date r
         | Some t \<Rightarrow> strptime t = Inr (exp_date r'))"
proof -
  from assms obtain e1 e2 where
    1: "put_expense_title data r = Ok e1" and
    2: "put_expense_amount data e1 = Ok e2" and
    3: "put_expense_date data e2 = Ok r'"
    unfolding put_expense_fields_def and_then_Ok by blast
  show ?thesis
    using put_expense_title_Ok[OF 1] put_expense_amount_Ok[OF 2] put_expense_date_Ok[OF 3]
    by (simp split: option.splits)
qed

lemma put_expense_fields_Respond:
  assumes "put_expense_fields data r = Respond resp"
  shows "http_status resp = 400"
proof -
  have "put_expense_title data r = Respond resp
      \<or> (\<exists>i. put_expense_amount data i = Respond resp)
      \<or> (\<exists>i. put_expense_date data i = Respond resp)"
    using assms unfolding put_expense_fields_def and_then_Respond by blast
  then show ?thesis
    by (auto simp: and_then_Respond error_response_def
      put_expense_title_def put_expense_amount_def put_expense_date_def
      dest: api_amount_Respond api_date_Respond split: option.splits if_splits)
qed

lemma ExpenseAPIView_put_cases:
  assumes "Expense_get s pk = Some r"
  shows "(\<exists>r'. put_expense_fields data r = Ok r' \<and>
            ExpenseAPIView_put now pk data s =
              (success_response 200 ''Expense transaction updated successfully'',
               Expense_save now r' s))
       \<or> (http_status (fst (ExpenseAPIView_put now pk data s)) \<noteq> 200
           \<and> snd (ExpenseAPIView_put now pk data s) = s)"
  using assms
  by (cases "put_expense_fields data r")
     (auto simp: ExpenseAPIView_put_def error_response_def dest: put_expense_fields_Respond)

lemma Expense_save_get:
  assumes "Expense_get s pk = Some r" and "exp_id r' = exp_id r"
  shows "Expense_get (Expense_save now r' s) pk = Some (r'\<lparr>exp_updated_at := now\<rparr>)"
proof -
  have k: "exp_id r = pk" using assms(1) unfolding Expense_get_def by (rule find_key)
  have "find (\<lambda>x. exp_id x = pk)
          (map (\<lambda>x. if exp_id x = pk then r'\<lparr>exp_updated_at := now\<rparr> else x) (expenses s))
        = Some (r'\<lparr>exp_updated_at := now\<rparr>)"
    using assms k by (intro find_map_replace) (simp_all add: Expense_get_def)
  then show ?thesis using assms(2) k by (simp add: Expense_get_def Expense_save_def)
qed


lemma expense_put_200:
  assumes g: "Expense_get s pk = Some r"
      and p: "ExpenseAPIView_put now pk data s = (resp, s')"
      and c: "http_status resp = 200"
  shows "\<exists>r'. Expense_get s' pk = Some r'
     \<and> s' = s\<lparr>expenses := map (\<lambda>x. if exp_id x = pk then r' else x) (expenses s)\<rparr>
     \<and> exp_id r' = exp_id r \<and> exp_created_at r' = exp_created_at r
     \<and> exp_updated_at r' = now
     \<and> (exp_updated_at r < now \<longrightarrow> exp_updated_at r < exp_updated_at r')
     \<and> exp_title r' = (case eb_title data of None \<Rightarrow> exp_title r | Some t \<Rightarrow> strip t)
     \<and> (case eb_amount data of None \<Rightarrow> exp_amount r' = exp_amount r
         | Some t \<Rightarrow> Decimal t = Inr (exp_amount r'))
     \<and> (case eb_date data of None \<Rightarrow> exp_date r' = exp_date r
         | Some t \<Rightarrow> strptime t = Inr (exp_date r'))"
proof -
  from ExpenseAPIView_put_cases[OF g, of data now] p c
  obtain r1 where r1: "put_expense_fields data r = Ok r1" and s': "s' = Expense_save now r1 s"
    by auto
  note f = put_expense_fields_Ok[OF r1]
  have k: "exp_id r = pk" using g unfolding Expense_get_def by (rule find_key)
  let ?r' = "r1\<lparr>exp_updated_at := now\<rparr>"
  have "Expense_get s' pk = Some ?r'"
    unfolding s' using g f by (intro Expense_save_get) simp_all
  moreover have "s' = s\<lparr>expenses := map (\<lambda>x. if exp_id x = pk then ?r' else x) (expenses s)\<rparr>"
    unfolding s' using f k by (simp add: Expense_save_def)
  ultimately show ?thesis using f by (intro exI[of _ ?r']) (simp split: option.splits)
qed

lemma expense_put_not_200:
  assumes g: "Expense_get s pk = Some r"
      and p: "ExpenseAPIView_put now pk data s = (resp, s')"
      and c: "http_status resp \<noteq> 200"
  shows "s' = s"
  using ExpenseAPIView_put_cases[OF g, of data now] p c by (auto simp: success_response_def)

lemma put_income_category_Ok_iff:
  "(\<exists>r1. put_income_category data s r = Ok r1)
     \<longleftrightarrow> (\<forall>cid. ib_category_id data = Some cid \<longrightarrow> cid \<in> cat_id ` set (categories s))"
proof (cases "ib_category_id data")
  case None
  then show ?thesis by (simp add: put_income_category_def)
next
  case (Some cid)
  have "Category_get s cid = None \<longleftrightarrow> cid \<notin> cat_id ` set (categories s)"
    by (auto simp: Category_get_def find_None_iff)
  then show ?thesis using Some
    by (cases "Category_get s cid") (auto simp: put_income_category_def)
qed

lemma put_income_source_Ok_iff:
  "(\<exists>r1. put_income_source data r = Ok r1)
     \<longleftrightarrow> (\<forall>src. ib_source data = Some src \<longrightarrow> strip src \<noteq> [])"
  by (cases "ib_source data") (auto simp: put_income_source_def)

lemma api_amount_Ok_ex: "(\<exists>a. api_amount t = Ok a) \<longleftrightarrow> (\<exists>a. t = Numeric a \<and> 0 < a)"
  by (cases t) (auto simp: api_amount_def)

lemma api_date_Ok_ex: "(\<exists>d. api_date t = Ok d) \<longleftrightarrow> (\<exists>d. t = DateText d)"
  by (cases t) (auto simp: api_date_def)

lemma put_income_amount_Ok_iff:
  "(\<exists>r1. put_income_amount data r = Ok r1)
     \<longleftrightarrow> (\<forall>t. ib_amount data = Some t \<longrightarrow> (\<exists>a. t = Numeric a \<and> 0 < a))"
  using api_amount_Ok_ex
  by (cases "ib_amount data") (auto simp: put_income_amount_def and_then_Ok)

lemma put_income_date_Ok_iff:
  "(\<exists>r1. put_income_date data r = Ok r1)
     \<longleftrightarrow> (\<forall>t. ib_date data = Some t \<longrightarrow> (\<exists>d. t = DateText d))"
  using api_date_Ok_ex
  by (cases "ib_date data") (auto simp: put_income_date_def and_then_Ok)

lemma put_income_note_Ok_ex: "\<exists>r1. put_income_note data r = Ok r1"
  by (cases "ib_note data") (auto simp: put_income_note_def)

lemma put_income_fields_Ok_iff:
  "(\<exists>r'. put_income_fields data s r = Ok r') \<longleftrightarrow>
     ((\<forall>cid. ib_category_id data = Some cid \<longrightarrow> cid \<in> cat_id ` set (categories s))
           \<and> (\<forall>src. ib_source data = Some src \<longrightarrow> strip src \<noteq> [])
           \<and> (\<forall>t. ib_amount data = Some t \<longrightarrow> (\<exists>a. t = Numeric a \<and> 0 < a))
           \<and> (\<forall>t. ib_date data = Some t \<longrightarrow> (\<exists>d. t = DateText d)))"
  (is "?L \<longleftrightarrow> ?R")
proof
  assume ?L
  then obtain i1 i2 i3 i4 where
    "put_income_category data s r = Ok i1" "put_income_source data i1 = Ok i2"
    "put_income_amount data i2 = Ok i3" "put_income_date data i3 = Ok i4"
    unfolding put_income_fields_def and_then_Ok by blast
  then show ?R
    using put_income_category_Ok_iff[of data s r] put_income_source_Ok_iff[of data i1]
      put_income_amount_Ok_iff[of data i2] put_income_date_Ok_iff[of data i3]
    by blast
next
  assume r: ?R
  obtain i1 where 1: "put_income_category data s r = Ok i1"
    using r put_income_category_Ok_iff[of data s r] by blast
  obtain i2 where 2: "put_income_source data i1 = Ok i2"
    using r put_income_source_Ok_iff[of data i1] by blast
  obtain i3 where 3: "put_income_amount data i2 = Ok i3"
    using r put_income_amount_Ok_iff[of data i2] by blast
  obtain i4 where 4: "put_income_date data i3 = Ok i4"
    using r put_income_date_Ok_iff[of data i3] by blast
  obtain i5 where 5: "put_income_note data i4 = Ok i5"
    using put_income_note_Ok_ex by blast
  show ?L unfolding put_income_fields_def and_then_Ok using 1 2 3 4 5 by blast
qed

lemma put_expense_title_Ok_iff:
  "(\<exists>r1. put_expense_title data r = Ok r1)
     \<longleftrightarrow> (\<forall>ttl. eb_title data = Some ttl \<longrightarrow> strip ttl \<noteq> [])"
  by (cases "eb_title data") (auto simp: put_expense_title_def)

lemma put_expense_amount_Ok_iff:
  "(\<exists>r1. put_expense_amount data r = Ok r1)
     \<longleftrightarrow> (\<forall>t. eb_amount data = Some t \<longrightarrow> (\<exists>a. t = Numeric a \<and> 0 < a))"
  using api_amount_Ok_ex
  by (cases "eb_amount data") (auto simp: put_expense_amount_def and_then_Ok)

lemma put_expense_date_Ok_iff:
  "(\<exists>r1. put_expense_date data r = Ok r1)
     \<longleftrightarrow> (\<forall>t. eb_date data = Some t \<longrightarrow> (\<exists>d. t = DateText d))"
  using api_date_Ok_ex
  by (cases "eb_date data") (auto simp: put_expense_date_def and_then_Ok)

lemma put_expense_fields_Ok_iff:
  "(\<exists>r'. put_expense_fields data r = Ok r') \<longleftrightarrow>
     ((\<forall>ttl. eb_title data = Some ttl \<longrightarrow> strip ttl \<noteq> [])
           \<and> (\<forall>t. eb_amount data = Some t \<longrightarrow> (\<exists>a. t = Numeric a \<and> 0 < a))
           \<and> (\<forall>t. eb_date data = Some t \<longrightarrow> (\<exists>d. t = DateText d)))"
  (is "?L \<longleftrightarrow> ?R")
proof
  assume ?L
  then obtain e1 e2 r' where
    "put_expense_title data r = Ok e1" "put_expense_amount data e1 = Ok e2"
    "put_expense_date data e2 = Ok r'"
    unfolding put_expense_fields_def and_then_Ok by blast
  then show ?R
    using put_expense_title_Ok_iff[of data r] put_expense_amount_Ok_iff[of data e1]
      put_expense_date_Ok_iff[of data e2]
    by blast
next
  assume r: ?R
  obtain e1 where 1: "put_expense_title data r = Ok e1"
    using r put_expense_title_Ok_iff[of data r] by blast
  obtain e2 where 2: "put_expense_amount data e1 = Ok e2"
    using r put_expense_amount_Ok_iff[of data e1] by blast
  obtain e3 where 3: "put_expense_date data e2 = Ok e3"
    using r put_expense_date_Ok_iff[of data e2] by blast
  show ?L unfolding put_expense_fields_def and_then_Ok using 1 2 3 by blast
qed

lemma income_put_200_iff:
  assumes g: "Income_get s pk = Some r"
      and p: "IncomeAPIView_put now pk data s = (resp, s')"
  shows "(http_status resp = 200 \<longleftrightarrow>
          ((\<forall>cid. ib_category_id data = Some cid \<longrightarrow> cid \<in> cat_id ` set (categories s))
           \<and> (\<forall>src. ib_source data = Some src \<longrightarrow> strip src \<noteq> [])
           \<and> (\<forall>t. ib_amount data = Some t \<longrightarrow> (\<exists>a. t = Numeric a \<and> 0 < a))
           \<and> (\<forall>t. ib_date data = Some t \<longrightarrow> (\<exists>d. t = DateText d))))
      \<and> (http_status resp = 200 \<longrightarrow>
            resp = success_response 200 ''Income transaction updated successfully'')"
proof -
  have "http_status resp = 200 \<longleftrightarrow> (\<exists>r'. put_income_fields data s r = Ok r')"
    using g p
    by (cases "put_income_fields data s r")
       (auto simp: IncomeAPIView_put_def error_response_def success_response_def
             dest: put_income_fields_Respond)
  moreover have "http_status resp = 200 \<longrightarrow>
            resp = success_response 200 ''Income transaction updated successfully''"
    using g p
    by (cases "put_income_fields data s r")
       (auto simp: IncomeAPIView_put_def error_response_def dest: put_income_fields_Respond)
  ultimately show ?thesis unfolding put_income_fields_Ok_iff by blast
qed

lemma expense_put_200_iff:
  assumes g: "Expense_get s pk = Some r"
      and p: "ExpenseAPIView_put now pk data s = (resp, s')"
  shows "(http_status resp = 200 \<longleftrightarrow>
          ((\<forall>ttl. eb_title data = Some ttl \<longrightarrow> strip ttl \<noteq> [])
           \<and> (\<forall>t. eb_amount data = Some t \<longrightarrow> (\<exists>a. t = Numeric a \<and> 0 < a))
           \<and> (\<forall>t. eb_date data = Some t \<longrightarrow> (\<exists>d. t = DateText d))))
      \<and> (http_status resp = 200 \<longrightarrow>
            resp = success_response 200 ''Expense transaction updated successfully'')"
proof -
  have "http_status resp = 200 \<longleftrightarrow> (\<exists>r'. put_expense_fields data r = Ok r')"
    using g p
    by (cases "put_expense_fields data r")
       (auto simp: ExpenseAPIView_put_def error_response_def success_response_def
             dest: put_expense_fields_Respond)
  moreover have "http_status resp = 200 \<longrightarrow>
            resp = success_response 200 ''Expense transaction updated successfully''"
    using g p
    by (cases "put_expense_fields data r")
       (auto simp: ExpenseAPIView_put_def error_response_def dest: put_expense_fields_Respond)
  ultimately show ?thesis unfolding put_expense_fields_Ok_iff by blast
qed

text \<open>
  Claim C6.  An update through \<open>PUT /api/income/<pk>/\<close> or \<open>PUT /api/expense/<pk>/\<close> of
  a row that exists is answered 200, as an update that succeeded, exactly when every
  member the body supplies is acceptable: a category that exists, a source or title that
  is not blank, an amount that is a positive number, a date that parses; a note is always
  acceptable.  Any other update leaves the store as it was.  When it answers 200, only
  the row with that id differs; its id and \<open>created_at\<close> are the old ones; each member
  the body supplies has become the supplied value (a text stripped, an amount and a date
  as parsed) and each member it does not supply keeps its old value; and \<open>updated_at\<close> is
  the instant of the update, later than the old one whenever the clock has moved on.
\<close>

theorem api_put_changes_supplied_fields_only:
  "(Income_get s pk = Some r \<and> IncomeAPIView_put now pk data s = (resp, s') \<longrightarrow>
      (http_status resp = 200 \<longleftrightarrow>
          ((\<forall>cid. ib_category_id data = Some cid \<longrightarrow> cid \<in> cat_id ` set (categories s))
           \<and> (\<forall>src. ib_source data = Some src \<longrightarrow> strip src \<noteq> [])
           \<and> (\<forall>t. ib_amount data = Some t \<longrightarrow> (\<exists>a. t = Numeric a \<and> 0 < a))
           \<and> (\<forall>t. ib_date data = Some t \<longrightarrow> (\<exists>d. t = DateText d))))
      \<and> (http_status resp = 200 \<longrightarrow>
            resp = success_response 200 ''Income transaction updated successfully'')
      \<and> (if http_status resp = 200
       then \<exists>r'. Income_get s' pk = Some r'
          \<and> s' = s\<lparr>incomes := map (\<lambda>x. if inc_id x = pk then r' else x) (incomes s)\<rparr>
          \<and> inc_id r' = inc_id r \<and> inc_created_at r' = inc_created_at r
          \<and> inc_updated_at r' = now
          \<and> (inc_updated_at r < now \<longrightarrow> inc_updated_at r < inc_updated_at r')
          \<and> inc_category_id r'
              = (case ib_category_id data of None \<Rightarrow> inc_category_id r | Some c \<Rightarrow> c)
          \<and> inc_source r' = (case ib_source data of None \<Rightarrow> inc_source r | Some t \<Rightarrow> strip t)
          \<and> (case ib_amount data of None \<Rightarrow> inc_amount r' = inc_amount r
              | Some t \<Rightarrow> Decimal t = Inr (inc_amount r'))
          \<and> (case ib_date data of None \<Rightarrow> inc_date r' = inc_date r
              | Some t \<Rightarrow> strptime t = Inr (inc_date r'))
          \<and> inc_note r' = (case ib_note data of None \<Rightarrow> inc_note r | Some t \<Rightarrow> strip t)
       else s' = s))
   \<and> (Expense_get s pk = Some e \<and> ExpenseAPIView_put now pk edata s = (eresp, es') \<longrightarrow>
      (http_status eresp = 200 \<longleftrightarrow>
          ((\<forall>ttl. eb_title edata = Some ttl \<longrightarrow> strip ttl \<noteq> [])
           \<and> (\<forall>t. eb_amount edata = Some t \<longrightarrow> (\<exists>a. t = Numeric a \<and> 0 < a))
           \<and> (\<forall>t. eb_date edata = Some t \<longrightarrow> (\<exists>d. t = DateText d))))
      \<and> (http_status eresp = 200 \<longrightarrow>
            eresp = success_response 200 ''Expense transaction updated successfully'')
      \<and> (if http_status eresp = 200
       then \<exists>e'. Expense_get es' pk = Some e'
          \<and> es' = s\<lparr>expenses := map (\<lambda>x. if exp_id x = pk then e' else x) (expenses s)\<rparr>
          \<and> exp_id e' = exp_id e \<and> exp_created_at e' = exp_created_at e
          \<and> exp_updated_at e' = now
          \<and> (exp_updated_at e < now \<longrightarrow> exp_updated_at e < exp_updated_at e')
          \<and> exp_title e' = (case eb_title edata of None \<Rightarrow> exp_title e | Some t \<Rightarrow> strip t)
          \<and> (case eb_amount edata of None \<Rightarrow> exp_amount e' = exp_amount e
              | Some t \<Rightarrow> Decimal t = Inr (exp_amount e'))
          \<and> (case eb_date edata of None \<Rightarrow> exp_date e' = exp_date e
              | Some t \<Rightarrow> strptime t = Inr (exp_date e'))
       else es' = s))"
proof (rule conjI; rule impI)
  assume a: "Income_get s pk = Some r \<and> IncomeAPIView_put now pk data s = (resp, s')"
  have third: "if http_status resp = 200
       then \<exists>r'. Income_get s' pk = Some r'
          \<and> s' = s\<lparr>incomes := map (\<lambda>x. if inc_id x = pk then r' else x) (incomes s)\<rparr>
          \<and> inc_id r' = inc_id r \<and> inc_created_at r' = inc_created_at r
          \<and> inc_updated_at r' = now
          \<and> (inc_updated_at r < now \<longrightarrow> inc_updated_at r < inc_updated_at r')
          \<and> inc_category_id r'
              = (case ib_category_id data of None \<Rightarrow> inc_category_id r | Some c \<Rightarrow> c)
          \<and> inc_source r' = (case ib_source data of None \<Rightarrow> inc_source r | Some t \<Rightarrow> strip t)
          \<and> (case ib_amount data of None \<Rightarrow> inc_amount r' = inc_amount r
              | Some t \<Rightarrow> Decimal t = Inr (inc_amount r'))
          \<and> (case ib_date data of None \<Rightarrow> inc_date r' = inc_date r
              | Some t \<Rightarrow> strptime t = Inr (inc_date r'))
          \<and> inc_note r' = (case ib_note data of None \<Rightarrow> inc_note r | Some t \<Rightarrow> strip t)
       else s' = s"
  proof (cases "http_status resp = 200")
    case True
    show ?thesis
      by (rule iffD2[OF if_P[OF True]])
         (rule income_put_200[OF conjunct1[OF a] conjunct2[OF a] True])
  next
    case False
    show ?thesis
      by (rule iffD2[OF if_not_P[OF False]])
         (rule income_put_not_200[OF conjunct1[OF a] conjunct2[OF a] False])
  qed
  show "(http_status resp = 200 \<longleftrightarrow>
          ((\<forall>cid. ib_category_id data = Some cid \<longrightarrow> cid \<in> cat_id ` set (categories s))
           \<and> (\<forall>src. ib_source data = Some src \<longrightarrow> strip src \<noteq> [])
           \<and> (\<forall>t. ib_amount data = Some t \<longrightarrow> (\<exists>a. t = Numeric a \<and> 0 < a))
           \<and> (\<forall>t. ib_date data = Some t \<longrightarrow> (\<exists>d. t = DateText d))))
      \<and> (http_status resp = 200 \<longrightarrow>
            resp = success_response 200 ''Income transaction updated successfully'')
      \<and> (if http_status resp = 200
       then \<exists>r'. Income_get s' pk = Some r'
          \<and> s' = s\<lparr>incomes := map (\<lambda>x. if inc_id x = pk then r' else x) (incomes s)\<rparr>
          \<and> inc_id r' = inc_id r \<and> inc_created_at r' = inc_created_at r
          \<and> inc_updated_at r' = now
          \<and> (inc_updated_at r < now \<longrightarrow> inc_updated_at r < inc_updated_at r')
          \<and> inc_category_id r'
              = (case ib_category_id data of None \<Rightarrow> inc_category_id r | Some c \<Rightarrow> c)
          \<and> inc_source r' = (case ib_source data of None \<Rightarrow> inc_source r | Some t \<Rightarrow> strip t)
          \<and> (case ib_amount data of None \<Rightarrow> inc_amount r' = inc_amount r
              | Some t \<Rightarrow> Decimal t = Inr (inc_amount r'))
          \<and> (case ib_date data of None \<Rightarrow> inc_date r' = inc_date r
              | Some t \<Rightarrow> strptime t = Inr (inc_date r'))
          \<and> inc_note r' = (case ib_note data of None \<Rightarrow> inc_note r | Some t \<Rightarrow> strip t)
       else s' = s)"
    using income_put_200_iff[OF conjunct1[OF a] conjunct2[OF a]] third by blast
next
  assume a: "Expense_get s pk = Some e \<and> ExpenseAPIView_put now pk edata s = (eresp, es')"
  have third: "if http_status eresp = 200
       then \<exists>e'. Expense_get es' pk = Some e'
          \<and> es' = s\<lparr>expenses := map (\<lambda>x. if exp_id x = pk then e' else x) (expenses s)\<rparr>
          \<and> exp_id e' = exp_id e \<and> exp_created_at e' = exp_created_at e
          \<and> exp_updated_at e' = now
          \<and> (exp_updated_at e < now \<longrightarrow> exp_updated_at e < exp_updated_at e')
          \<and> exp_title e' = (case eb_title edata of None \<Rightarrow> exp_title e | Some t \<Rightarrow> strip t)
          \<and> (case eb_amount edata of None \<Rightarrow> exp_amount e' = exp_amount e
              | Some t \<Rightarrow> Decimal t = Inr (exp_amount e'))
          \<and> (case eb_date edata of None \<Rightarrow> exp_date e' = exp_date e
              | Some t \<Rightarrow> strptime t = Inr (exp_date e'))
       else es' = s"
  proof (cases "http_status eresp = 200")
    case True
    show ?thesis
      by (rule iffD2[OF if_P[OF True]])
         (rule expense_put_200[OF conjunct1[OF a] conjunct2[OF a] True])
  next
    case False
    show ?thesis
      by (rule iffD2[OF if_not_P[OF False]])
         (rule expense_put_not_200[OF conjunct1[OF a] conjunct2[OF a] False])
  qed
  show "(http_status eresp = 200 \<longleftrightarrow>
          ((\<forall>ttl. eb_title edata = Some ttl \<longrightarrow> strip ttl \<noteq> [])
           \<and> (\<forall>t. eb_amount edata = Some t \<longrightarrow> (\<exists>a. t = Numeric a \<and> 0 < a))
           \<and> (\<forall>t. eb_date edata = Some t \<longrightarrow> (\<exists>d. t = DateText d))))
      \<and> (http_status eresp = 200 \<longrightarrow>
            eresp = success_response 200 ''Expense transaction updated successfully'')
      \<and> (if http_status eresp = 200
       then \<exists>e'. Expense_get es' pk = Some e'
          \<and> es' = s\<lparr>expenses := map (\<lambda>x. if exp_id x = pk then e' else x) (expenses s)\<rparr>
          \<and> exp_id e' = exp_id e \<and> exp_created_at e' = exp_created_at e
          \<and> exp_updated_at e' = now
          \<and> (exp_updated_at e < now \<longrightarrow> exp_updated_at e < exp_updated_at e')
          \<and> exp_title e' = (case eb_title edata of None \<Rightarrow> exp_title e | Some t \<Rightarrow> strip t)
          \<and> (case eb_amount edata of None \<Rightarrow> exp_amount e' = exp_amount e
              | Some t \<Rightarrow> Decimal t = Inr (exp_amount e'))
          \<and> (case eb_date edata of None \<Rightarrow> exp_date e' = exp_date e
              | Some t \<Rightarrow> strptime t = Inr (exp_date e'))
       else es' = s)"
    using expense_put_200_iff[OF conjunct1[OF a] conjunct2[OF a]] third by blast
qed

theorem api_put_witness:
  "Income_get (a_store [an_income 1 (2026, 1, 5)] [an_expense 1 (2026, 1, 6)]) 1
     = Some (an_income 1 (2026, 1, 5))
   \<and> IncomeAPIView_put 9 1 (no_income_members\<lparr>ib_amount := Some (Numeric 75)\<rparr>)
        (a_store [an_income 1 (2026, 1, 5)] [an_expense 1 (2026, 1, 6)])
      = (success_response 200 ''Income transaction updated successfully'',
         a_store [(an_income 1 (2026, 1, 5))\<lparr>inc_amount := 75, inc_updated_at := 9\<rparr>]
                 [an_expense 1 (2026, 1, 6)])
   \<and> Income_get
        (a_store [(an_income 1 (2026, 1, 5))\<lparr>inc_amount := 75, inc_updated_at := 9\<rparr>]
                 [an_expense 1 (2026, 1, 6)]) 1
      = Some ((an_income 1 (2026, 1, 5))\<lparr>inc_amount := 75, inc_updated_at := 9\<rparr>)
   \<and> Expense_get (a_store [an_income 1 (2026, 1, 5)] [an_expense 1 (2026, 1, 6)]) 1
     = Some (an_expense 1 (2026, 1, 6))
   \<and> ExpenseAPIView_put 9 1 (no_expense_members\<lparr>eb_title := Some '' Food ''\<rparr>)
        (a_store [an_income 1 (2026, 1, 5)] [an_expense 1 (2026, 1, 6)])
      = (success_response 200 ''Expense transaction updated successfully'',
         a_store [an_income 1 (2026, 1, 5)]
                 [(an_expense 1 (2026, 1, 6))\<lparr>exp_title := ''Food'', exp_updated_at := 9\<rparr>])
   \<and> Expense_get
        (a_store [an_income 1 (2026, 1, 5)]
                 [(an_expense 1 (2026, 1, 6))\<lparr>exp_title := ''Food'', exp_updated_at := 9\<rparr>]) 1
      = Some ((an_expense 1 (2026, 1, 6))\<lparr>exp_title := ''Food'', exp_updated_at := 9\<rparr>)"
proof -
  let ?s = "a_store [an_income 1 (2026, 1, 5)] [an_expense 1 (2026, 1, 6)]"
  let ?si = "a_store [(an_income 1 (2026, 1, 5))\<lparr>inc_amount := 75, inc_updated_at := 9\<rparr>]
                 [an_expense 1 (2026, 1, 6)]"
  let ?se = "a_store [an_income 1 (2026, 1, 5)]
                 [(an_expense 1 (2026, 1, 6))\<lparr>exp_title := ''Food'', exp_updated_at := 9\<rparr>]"
  have g1: "Income_get ?s 1 = Some (an_income 1 (2026, 1, 5))"
    by (simp add: Income_get_def a_store_def an_income_def)
  have g2: "Expense_get ?s 1 = Some (an_expense 1 (2026, 1, 6))"
    by (simp add: Expense_get_def a_store_def an_expense_def)
  have p1: "IncomeAPIView_put 9 1 (no_income_members\<lparr>ib_amount := Some (Numeric 75)\<rparr>) ?s
      = (success_response 200 ''Income transaction updated successfully'', ?si)"
    by (simp add: IncomeAPIView_put_def Income_get_def put_income_fields_def
        put_income_category_def put_income_source_def put_income_amount_def put_income_date_def
        put_income_note_def no_income_members_def api_amount_def Income_save_def a_store_def
        an_income_def)
  have p2: "ExpenseAPIView_put 9 1 (no_expense_members\<lparr>eb_title := Some '' Food ''\<rparr>) ?s
      = (success_response 200 ''Expense transaction updated successfully'', ?se)"
    by (simp add: ExpenseAPIView_put_def Expense_get_def put_expense_fields_def
        put_expense_title_def put_expense_amount_def put_expense_date_def no_expense_members_def
        Expense_save_def a_store_def an_expense_def strip_def is_space_def)
  have c: "http_status (success_response 200 m) = 200" for m
    by (simp add: success_response_def)
  from api_put_changes_supplied_fields_only
        [of ?s 1 "an_income 1 (2026, 1, 5)" 9 "no_income_members\<lparr>ib_amount := Some (Numeric 75)\<rparr>"
            "success_response 200 ''Income transaction updated successfully''" ?si
            "an_expense 1 (2026, 1, 6)" "no_expense_members\<lparr>eb_title := Some '' Food ''\<rparr>"
            "success_response 200 ''Expense transaction updated successfully''" ?se]
  have "(\<exists>r'. Income_get ?si 1 = Some r' \<and> inc_amount r' = 75 \<and> inc_updated_at r' = 9
            \<and> inc_source r' = ''Pay'' \<and> inc_id r' = 1 \<and> inc_created_at r' = 1)
      \<and> (\<exists>e'. Expense_get ?se 1 = Some e' \<and> exp_title e' = ''Food'' \<and> exp_updated_at e' = 9
            \<and> exp_amount e' = 40 \<and> exp_id e' = 1 \<and> exp_created_at e' = 1)"
    unfolding g1 g2 p1 p2 c
    by (simp add: no_income_members_def no_expense_members_def an_income_def an_expense_def
        strip_def is_space_def) blast
  then show ?thesis
    unfolding p1 p2
    by (simp add: Income_get_def Expense_get_def a_store_def an_income_def an_expense_def)
qed

section \<open>Creation through the combined transaction resource\<close>

lemma Category_get_or_create_Salary:
  assumes "Category_get_or_create now nm s = (c, s1)"
  shows "cat_name c = nm \<and> c \<in> set (categories s1)
     \<and> incomes s1 = incomes s \<and> expenses s1 = expenses s
     \<and> ((\<exists>c0\<in>set (categories s). cat_name c0 = nm) \<longrightarrow> categories s1 = categories s)
     \<and> ((\<forall>c0\<in>set (categories s). cat_name c0 \<noteq> nm) \<longrightarrow>
           categories s1 = categories s @ [c] \<and> cat_id c = next_category_id s)"
  using assms
  by (auto simp: Category_get_or_create_def Let_def find_None_iff find_Some_iff
      split: option.splits)

lemma find_distinct_key:
  "distinct (map key xs) \<Longrightarrow> c \<in> set xs \<Longrightarrow> find (\<lambda>x. key x = key c) xs = Some c"
  by (induction xs) (auto simp: image_iff)

lemma find_append_new:
  "\<forall>x\<in>set xs. key x \<noteq> key c \<Longrightarrow> find (\<lambda>x. key x = key c) (xs @ [c]) = Some c"
  by (induction xs) auto

lemma Category_get_or_create_get:
  assumes "Category_get_or_create now nm s = (c, s1)"
      and "distinct (map cat_id (categories s))"
      and "\<forall>c0\<in>set (categories s). cat_id c0 < next_category_id s"
  shows "Category_get s1 (cat_id c) = Some c"
proof (cases "\<exists>c0\<in>set (categories s). cat_name c0 = nm")
  case True
  with Category_get_or_create_Salary[OF assms(1)]
  have "categories s1 = categories s" "c \<in> set (categories s1)" by auto
  then show ?thesis
    using assms(2) by (simp add: Category_get_def find_distinct_key)
next
  case False
  with Category_get_or_create_Salary[OF assms(1)]
  have e: "categories s1 = categories s @ [c]" "cat_id c = next_category_id s" by auto
  have "\<forall>x\<in>set (categories s). cat_id x \<noteq> cat_id c" using assms(3) e(2) by auto
  then show ?thesis unfolding Category_get_def e(1) by (rule find_append_new)
qed

lemma transaction_post_income_cases:
  assumes t: "tb_type data = Some ''income''"
  shows "(\<exists>a d c s1. tb_amount data = Some (Numeric a) \<and> 0 < a
            \<and> tb_description data = Some d \<and> d \<noteq> []
            \<and> Category_get_or_create now ''Salary'' s = (c, s1)
            \<and> TransactionAPIView_post now today data s =
                (success_response 200 ''Income transaction created successfully'',
                 snd (Income_create now (cat_id c) (strip d) a today
                        (strip (case tb_note data of None \<Rightarrow> [] | Some n \<Rightarrow> n)) s1)))
       \<or> (status (fst (TransactionAPIView_post now today data s)) = ''error''
           \<and> incomes (snd (TransactionAPIView_post now today data s)) = incomes s
           \<and> \<not> (\<exists>a d. tb_amount data = Some (Numeric a) \<and> 0 < a
                  \<and> tb_description data = Some d \<and> d \<noteq> []))"
proof (cases "tb_amount data")
  case None
  then show ?thesis using t
    by (simp add: TransactionAPIView_post_def missing_field_def error_response_def)
next
  case (Some amt)
  note amt = this
  show ?thesis
  proof (cases "amount_given amt")
    case False
    then have "amt = NoText" by (cases amt) auto
    then show ?thesis using t amt
      by (simp add: TransactionAPIView_post_def missing_field_def error_response_def)
  next
    case True
    note given = this
    show ?thesis
    proof (cases "tb_description data")
      case None
      then show ?thesis using t amt given
        by (simp add: TransactionAPIView_post_def missing_field_def error_response_def)
    next
      case (Some d)
      note d = this
      show ?thesis
      proof (cases "d = []")
        case True
        then show ?thesis using t amt given d
          by (simp add: TransactionAPIView_post_def missing_field_def error_response_def)
      next
        case False
        obtain c s1 where g: "Category_get_or_create now ''Salary'' s = (c, s1)"
          by (cases "Category_get_or_create now ''Salary'' s") auto
        have i: "incomes s1 = incomes s"
          using Category_get_or_create_Salary[OF g] by simp
        show ?thesis
        proof (cases amt)
          case NoText
          then show ?thesis using given by simp
        next
          case (Numeric a)
          then show ?thesis using t amt given d False g i
            by (cases "a \<le> 0")
               (simp_all add: TransactionAPIView_post_def api_amount_def error_response_def
                  split_beta)
        next
          case NonNumeric
          then show ?thesis using t amt given d False g i
            by (simp add: TransactionAPIView_post_def api_amount_def error_response_def)
        qed
      qed
    qed
  qed
qed

lemma transaction_post_ignores_category_and_date:
  "TransactionAPIView_post now today (data\<lparr>tb_category_id := k, tb_date := d\<rparr>) s
     = TransactionAPIView_post now today data s"
proof -
  have sel: "tb_type (data\<lparr>tb_category_id := k, tb_date := d\<rparr>) = tb_type data"
    "tb_amount (data\<lparr>tb_category_id := k, tb_date := d\<rparr>) = tb_amount data"
    "tb_description (data\<lparr>tb_category_id := k, tb_date := d\<rparr>) = tb_description data"
    "tb_note (data\<lparr>tb_category_id := k, tb_date := d\<rparr>) = tb_note data"
    by simp_all
  show ?thesis unfolding TransactionAPIView_post_def sel by (rule refl)
qed

text \<open>
  Claim C9.  A \<open>POST /api/transactions/\<close> with type \<open>income\<close> succeeds exactly when the
  amount is a positive number and the description is not empty.  The Income row it then
  adds refers to the category named \<open>Salary\<close>, which is the one the store already had or,
  when it had none, one created for the request; and its date is the current date.  A
  \<open>category_id\<close> or a \<open>date\<close> in the body changes nothing in the answer or in the store.
\<close>

theorem transactions_post_income_defaults:
  assumes "tb_type data = Some ''income''"
      and "TransactionAPIView_post now today data s = (resp, s')"
  shows "(status resp = ''success'' \<longleftrightarrow>
            (\<exists>a d. tb_amount data = Some (Numeric a) \<and> 0 < a
                 \<and> tb_description data = Some d \<and> d \<noteq> []))
      \<and> (status resp = ''success'' \<longrightarrow>
            (\<exists>c r. incomes s' = incomes s @ [r] \<and> inc_date r = today
               \<and> inc_category_id r = cat_id c \<and> cat_name c = ''Salary''
               \<and> c \<in> set (categories s')
               \<and> ((\<exists>c0\<in>set (categories s). cat_name c0 = ''Salary'') \<longrightarrow>
                      categories s' = categories s)
               \<and> ((\<forall>c0\<in>set (categories s). cat_name c0 \<noteq> ''Salary'') \<longrightarrow>
                      categories s' = categories s @ [c])
               \<and> (distinct (map cat_id (categories s))
                    \<and> (\<forall>c0\<in>set (categories s). cat_id c0 < next_category_id s) \<longrightarrow>
                      category_name s' r = ''Salary'')))
      \<and> TransactionAPIView_post now today (data\<lparr>tb_category_id := k, tb_date := d'\<rparr>) s
          = (resp, s')"
proof -
  let ?valid = "\<exists>a d. tb_amount data = Some (Numeric a) \<and> 0 < a
                 \<and> tb_description data = Some d \<and> d \<noteq> []"
  have third: "TransactionAPIView_post now today (data\<lparr>tb_category_id := k, tb_date := d'\<rparr>) s
          = (resp, s')"
    using assms(2) by (simp add: transaction_post_ignores_category_and_date)
  from transaction_post_income_cases[OF assms(1), of now s today]
  consider
    (ok) a d c s1 where "tb_amount data = Some (Numeric a)" "0 < a"
      "tb_description data = Some d" "d \<noteq> []"
      "Category_get_or_create now ''Salary'' s = (c, s1)"
      "TransactionAPIView_post now today data s =
          (success_response 200 ''Income transaction created successfully'',
           snd (Income_create now (cat_id c) (strip d) a today
                  (strip (case tb_note data of None \<Rightarrow> [] | Some n \<Rightarrow> n)) s1))"
  | (err) "status (fst (TransactionAPIView_post now today data s)) = ''error''"
      "\<not> ?valid"
    by blast
  then show ?thesis
  proof cases
    case ok
    let ?r = "fst (Income_create now (cat_id c) (strip d) a today
                  (strip (case tb_note data of None \<Rightarrow> [] | Some n \<Rightarrow> n)) s1)"
    note g = Category_get_or_create_Salary[OF ok(5)]
    have resp: "resp = success_response 200 ''Income transaction created successfully''"
      and s': "s' = snd (Income_create now (cat_id c) (strip d) a today
                  (strip (case tb_note data of None \<Rightarrow> [] | Some n \<Rightarrow> n)) s1)"
      using assms(2) ok(6) by simp_all
    have st: "status resp = ''success''" by (simp add: resp success_response_def)
    have valid: ?valid using ok(1-4) by blast
    have i: "incomes s' = incomes s @ [?r]" "categories s' = categories s1"
      "inc_date ?r = today" "inc_category_id ?r = cat_id c"
      using g by (simp_all add: s' Income_create_def Let_def)
    have cn: "category_name s' ?r = ''Salary''"
      if "distinct (map cat_id (categories s))"
         "\<forall>c0\<in>set (categories s). cat_id c0 < next_category_id s"
    proof -
      have "Category_get s1 (cat_id c) = Some c"
        using ok(5) that by (rule Category_get_or_create_get)
      then have "Category_get s' (cat_id c) = Some c"
        using i(2) by (simp add: Category_get_def)
      then show ?thesis using g i(4) by (simp add: category_name_def)
    qed
    have "\<exists>c r. incomes s' = incomes s @ [r] \<and> inc_date r = today
               \<and> inc_category_id r = cat_id c \<and> cat_name c = ''Salary''
               \<and> c \<in> set (categories s')
               \<and> ((\<exists>c0\<in>set (categories s). cat_name c0 = ''Salary'') \<longrightarrow>
                      categories s' = categories s)
               \<and> ((\<forall>c0\<in>set (categories s). cat_name c0 \<noteq> ''Salary'') \<longrightarrow>
                      categories s' = categories s @ [c])
               \<and> (distinct (map cat_id (categories s))
                    \<and> (\<forall>c0\<in>set (categories s). cat_id c0 < next_category_id s) \<longrightarrow>
                      category_name s' r = ''Salary'')"
      using i g cn by (intro exI[of _ c] exI[of _ ?r]) simp
    then show ?thesis using st valid third by blast
  next
    case err
    then have "status resp \<noteq> ''success''" using assms(2) by simp
    then show ?thesis using err(2) third by blast
  qed
qed

theorem transactions_post_income_witness:
  "tb_type (no_members\<lparr>tb_type := Some ''income'', tb_amount := Some (Numeric 10),
                        tb_description := Some ''Bonus'', tb_category_id := Some 7,
                        tb_date := Some (DateText (2030, 1, 1))\<rparr>) = Some ''income''
   \<and> TransactionAPIView_post 9 (2026, 11, 3)
        (no_members\<lparr>tb_type := Some ''income'', tb_amount := Some (Numeric 10),
                     tb_description := Some ''Bonus'', tb_category_id := Some 7,
                     tb_date := Some (DateText (2030, 1, 1))\<rparr>) empty_store
      = (success_response 200 ''Income transaction created successfully'',
         \<lparr>categories = [\<lparr>cat_id = 1, cat_name = ''Salary'', cat_created_at = 9\<rparr>],
          incomes = [\<lparr>inc_id = 1, inc_category_id = 1, inc_source = ''Bonus'', inc_amount = 10,
                      inc_date = (2026, 11, 3), inc_note = [],
                      inc_created_at = 9, inc_updated_at = 9\<rparr>],
          expenses = [], next_category_id = 2, next_income_id = 2, next_expense_id = 1\<rparr>)"
proof -
  let ?d = "no_members\<lparr>tb_type := Some ''income'', tb_amount := Some (Numeric 10),
                        tb_description := Some ''Bonus'', tb_category_id := Some 7,
                        tb_date := Some (DateText (2030, 1, 1))\<rparr>"
  have t: "tb_type ?d = Some ''income''" by (simp add: no_members_def)
  have p: "TransactionAPIView_post 9 (2026, 11, 3) ?d empty_store
      = (success_response 200 ''Income transaction created successfully'',
         \<lparr>categories = [\<lparr>cat_id = 1, cat_name = ''Salary'', cat_created_at = 9\<rparr>],
          incomes = [\<lparr>inc_id = 1, inc_category_id = 1, inc_source = ''Bonus'', inc_amount = 10,
                      inc_date = (2026, 11, 3), inc_note = [],
                      inc_created_at = 9, inc_updated_at = 9\<rparr>],
          expenses = [], next_category_id = 2, next_income_id = 2, next_expense_id = 1\<rparr>)"
    by (simp add: TransactionAPIView_post_def no_members_def empty_store_def
        Category_get_or_create_def api_amount_def Income_create_def Let_def
        strip_def is_space_def)
  from transactions_post_income_defaults[OF t p] t p show ?thesis by simp
qed

section \<open>Descending sorts\<close>

lemma mset_sort_desc: "mset (sort_desc key xs) = mset xs"
  by (simp add: sort_desc_def)

lemma set_sort_desc: "set (sort_desc key xs) = set xs"
  by (simp add: sort_desc_def)

lemma length_sort_desc: "length (sort_desc key xs) = length xs"
  by (simp add: sort_desc_def)

lemma sorted_sort_desc: "sorted_wrt (\<lambda>a b. key b \<le> key a) (sort_desc key xs)"
proof -
  have "sorted (map key (sort_key key (rev xs)))" by (rule sorted_sort_key)
  then have "sorted_wrt (\<lambda>a b. key a \<le> key b) (sort_key key (rev xs))"
    by (simp add: sorted_map)
  then show ?thesis
    unfolding sort_desc_def by (simp add: sorted_wrt_rev)
qed

lemma filter_sort_desc: "filter P (sort_desc key xs) = sort_desc key (filter P xs)"
  by (simp add: sort_desc_def filter_sort flip: rev_filter)

lemma sorted_wrt_take_drop:
  "sorted_wrt R xs \<Longrightarrow> x \<in> set (take n xs) \<Longrightarrow> y \<in> set (drop n xs) \<Longrightarrow> R x y"
  by (metis append_take_drop_id sorted_wrt_append)

lemma pair_le_iff:
  "((a::'a::linorder), (b::'b::linorder)) \<le> (c, d) \<longleftrightarrow> a < c \<or> (a = c \<and> b \<le> d)"
  by (auto simp: less_eq_prod_def)

lemma incomes_by_date_created_sorted:
  "sorted_wrt (\<lambda>a b. inc_date b < inc_date a
                 \<or> (inc_date b = inc_date a \<and> inc_created_at b \<le> inc_created_at a))
     (incomes_by_date_created s)"
  unfolding incomes_by_date_created_def
  by (rule sorted_wrt_mono_rel[OF _ sorted_sort_desc[of "\<lambda>r. (inc_date r, inc_created_at r)"]])
     (auto simp: pair_le_iff)

lemma expenses_by_date_created_sorted:
  "sorted_wrt (\<lambda>a b. exp_date b < exp_date a
                 \<or> (exp_date b = exp_date a \<and> exp_created_at b \<le> exp_created_at a))
     (expenses_by_date_created s)"
  unfolding expenses_by_date_created_def
  by (rule sorted_wrt_mono_rel[OF _ sorted_sort_desc[of "\<lambda>r. (exp_date r, exp_created_at r)"]])
     (auto simp: pair_le_iff)

lemma filter_by_date_Inr:
  "filter_by_date t keep q = Inr q' \<Longrightarrow> \<exists>P. q' = filter P q"
  by (auto simp: filter_by_date_def split: if_splits sum.splits intro: exI[of _ "\<lambda>_. True"])

lemma filter_by_amount_Inr:
  "filter_by_amount t keep q = Inr q' \<Longrightarrow> \<exists>P. q' = filter P q"
  by (auto simp: filter_by_amount_def split: if_splits sum.splits intro: exI[of _ "\<lambda>_. True"])

lemma raising_Inr: "raising m f = Inr y \<longleftrightarrow> (\<exists>x. m = Inr x \<and> f x = Inr y)"
  by (cases m) auto

lemma filter_filter_ex: "\<exists>P. q' = filter P q \<Longrightarrow> \<exists>Q. q = filter Q b \<Longrightarrow> \<exists>R. q' = filter R b"
  by (metis filter_filter)

lemma filter_self_ex: "\<exists>P. q = filter P q"
  by (rule exI[of _ "\<lambda>_. True"]) simp

lemma IncomeListView_rows:
  assumes "IncomeListView_get_queryset request s = Inr rows"
  shows "\<exists>P. rows = filter P (incomes_by_date_created s)"
proof (cases request)
  case None
  then show ?thesis using assms filter_self_ex[of "incomes_by_date_created s"]
    by (simp add: IncomeListView_get_queryset_def)
next
  case (Some GET)
  let ?b = "incomes_by_date_created s"
  define q1 where "q1 = (if strip (lp_search GET) \<noteq> []
                     then filter (\<lambda>r. icontains (inc_source r) (strip (lp_search GET))
                                      \<or> icontains (inc_note r) (strip (lp_search GET))
                                      \<or> icontains (category_name s r) (strip (lp_search GET))) ?b
                     else ?b)"
  define q2 where "q2 = (if strip (lp_category GET) \<noteq> []
                     then filter (\<lambda>r. category_name s r = strip (lp_category GET)) q1
                     else q1)"
  have e1: "\<exists>P. q1 = filter P ?b" unfolding q1_def using filter_self_ex[of ?b] by auto
  have "\<exists>P. q2 = filter P q1" unfolding q2_def using filter_self_ex[of q1] by auto
  then have e2: "\<exists>P. q2 = filter P ?b" using e1 by (rule filter_filter_ex)
  from assms Some obtain q3 q4 q5 where
    q3: "filter_by_date (lp_date_from GET) (\<lambda>d r. inc_date r \<ge> d) q2 = Inr q3" and
    q4: "filter_by_date (lp_date_to GET) (\<lambda>d r. inc_date r \<le> d) q3 = Inr q4" and
    q5: "filter_by_amount (lp_amount_min GET) (\<lambda>a r. inc_amount r \<ge> a) q4 = Inr q5" and
    q6: "filter_by_amount (lp_amount_max GET) (\<lambda>a r. inc_amount r \<le> a) q5 = Inr rows"
    unfolding IncomeListView_get_queryset_def q1_def q2_def
    by (auto simp: Let_def raising_Inr)
  have e3: "\<exists>P. q3 = filter P ?b" using filter_by_date_Inr[OF q3] e2 by (rule filter_filter_ex)
  have e4: "\<exists>P. q4 = filter P ?b" using filter_by_date_Inr[OF q4] e3 by (rule filter_filter_ex)
  have e5: "\<exists>P. q5 = filter P ?b" using filter_by_amount_Inr[OF q5] e4 by (rule filter_filter_ex)
  show ?thesis using filter_by_amount_Inr[OF q6] e5 by (rule filter_filter_ex)
qed

lemma ExpenseListView_rows:
  assumes "ExpenseListView_get_queryset request s = Inr rows"
  shows "\<exists>P. rows = filter P (expenses_by_date_created s)"
proof (cases request)
  case None
  then show ?thesis using assms filter_self_ex[of "expenses_by_date_created s"]
    by (simp add: ExpenseListView_get_queryset_def)
next
  case (Some GET)
  let ?b = "expenses_by_date_created s"
  define q1 where "q1 = (if strip (lp_search GET) \<noteq> []
                     then filter (\<lambda>r. icontains (exp_title r) (strip (lp_search GET))) ?b
                     else ?b)"
  have e1: "\<exists>P. q1 = filter P ?b" unfolding q1_def using filter_self_ex[of ?b] by auto
  from assms Some obtain q3 q4 q5 where
    q3: "filter_by_date (lp_date_from GET) (\<lambda>d r. exp_date r \<ge> d) q1 = Inr q3" and
    q4: "filter_by_date (lp_date_to GET) (\<lambda>d r. exp_date r \<le> d) q3 = Inr q4" and
    q5: "filter_by_amount (lp_amount_min GET) (\<lambda>a r. exp_amount r \<ge> a) q4 = Inr q5" and
    q6: "filter_by_amount (lp_amount_max GET) (\<lambda>a r. exp_amount r \<le> a) q5 = Inr rows"
    unfolding ExpenseListView_get_queryset_def q1_def
    by (auto simp: Let_def raising_Inr)
  have e3: "\<exists>P. q3 = filter P ?b" using filter_by_date_Inr[OF q3] e1 by (rule filter_filter_ex)
  have e4: "\<exists>P. q4 = filter P ?b" using filter_by_date_Inr[OF q4] e3 by (rule filter_filter_ex)
  have e5: "\<exists>P. q5 = filter P ?b" using filter_by_amount_Inr[OF q5] e4 by (rule filter_filter_ex)
  show ?thesis using filter_by_amount_Inr[OF q6] e5 by (rule filter_filter_ex)
qed

lemma IncomeListView_unfiltered:
  "IncomeListView_get_queryset None s = Inr (incomes_by_date_created s)"
  "IncomeListView_get_queryset (Some no_params) s = Inr (incomes_by_date_created s)"
  by (simp_all add: IncomeListView_get_queryset_def no_params_def strip_def
      filter_by_date_def filter_by_amount_def)

lemma ExpenseListView_unfiltered:
  "ExpenseListView_get_queryset None s = Inr (expenses_by_date_created s)"
  "ExpenseListView_get_queryset (Some no_params) s = Inr (expenses_by_date_created s)"
  by (simp_all add: ExpenseListView_get_queryset_def no_params_def strip_def
      filter_by_date_def filter_by_amount_def)

lemma Income_create_ids:
  assumes "income_ids_ok s"
  shows "income_ids_ok (snd (Income_create now cid src amt d nt s))
     \<and> inc_id (fst (Income_create now cid src amt d nt s)) = next_income_id s
     \<and> next_income_id s \<notin> inc_id ` set (incomes s)
     \<and> incomes (snd (Income_create now cid src amt d nt s))
         = incomes s @ [fst (Income_create now cid src amt d nt s)]"
  using assms by (auto simp: income_ids_ok_def Income_create_def Let_def less_Suc_eq)

lemma Expense_create_ids:
  assumes "expense_ids_ok s"
  shows "expense_ids_ok (snd (Expense_create now ttl amt d s))
     \<and> exp_id (fst (Expense_create now ttl amt d s)) = next_expense_id s
     \<and> next_expense_id s \<notin> exp_id ` set (expenses s)
     \<and> expenses (snd (Expense_create now ttl amt d s))
         = expenses s @ [fst (Expense_create now ttl amt d s)]"
  using assms by (auto simp: expense_ids_ok_def Expense_create_def Let_def less_Suc_eq)

lemma distinct_ids_listing:
  "mset rows = mset tbl \<Longrightarrow> distinct (map key tbl) \<Longrightarrow> distinct (map key rows)"
  by (metis distinct_map mset_eq_setD mset_eq_imp_distinct_iff)

section \<open>Listings\<close>

text \<open>
  Claim C8.  A listing of Income rows or of Expense rows that \<open>get_queryset\<close> returns,
  with filters or without, is in descending order of date, and among equal dates in
  descending order of \<open>created_at\<close>.  Without a request, or with a request that carries
  no filter, the listing is a rearrangement of the whole table, so it has every id as
  often as the table has it: once each, the ids of a table being pairwise different.
  Creating a row keeps them so and adds exactly its new id to the full listing.
\<close>

theorem listings_newest_first_and_complete:
  "(IncomeListView_get_queryset request s = Inr rows \<longrightarrow>
      sorted_wrt (\<lambda>a b. inc_date b < inc_date a
                    \<or> (inc_date b = inc_date a \<and> inc_created_at b \<le> inc_created_at a)) rows)
   \<and> (ExpenseListView_get_queryset request s = Inr erows \<longrightarrow>
      sorted_wrt (\<lambda>a b. exp_date b < exp_date a
                    \<or> (exp_date b = exp_date a \<and> exp_created_at b \<le> exp_created_at a)) erows)
   \<and> (\<exists>every. IncomeListView_get_queryset None s = Inr every
         \<and> IncomeListView_get_queryset (Some no_params) s = Inr every
         \<and> mset every = mset (incomes s)
         \<and> mset (map inc_id every) = mset (map inc_id (incomes s))
         \<and> (income_ids_ok s \<longrightarrow> distinct (map inc_id every)))
   \<and> (\<exists>every. ExpenseListView_get_queryset None s = Inr every
         \<and> ExpenseListView_get_queryset (Some no_params) s = Inr every
         \<and> mset every = mset (expenses s)
         \<and> mset (map exp_id every) = mset (map exp_id (expenses s))
         \<and> (expense_ids_ok s \<longrightarrow> distinct (map exp_id every)))
   \<and> (income_ids_ok s \<longrightarrow>
        income_ids_ok (snd (Income_create now cid src amt d nt s))
        \<and> next_income_id s \<notin> inc_id ` set (incomes s)
        \<and> mset (map inc_id (incomes_by_date_created (snd (Income_create now cid src amt d nt s))))
            = add_mset (next_income_id s) (mset (map inc_id (incomes s))))
   \<and> (expense_ids_ok s \<longrightarrow>
        expense_ids_ok (snd (Expense_create now ttl amt d s))
        \<and> next_expense_id s \<notin> exp_id ` set (expenses s)
        \<and> mset (map exp_id (expenses_by_date_created (snd (Expense_create now ttl amt d s))))
            = add_mset (next_expense_id s) (mset (map exp_id (expenses s))))"
proof (intro conjI impI)
  assume "IncomeListView_get_queryset request s = Inr rows"
  then obtain P where "rows = filter P (incomes_by_date_created s)"
    using IncomeListView_rows by blast
  then show "sorted_wrt (\<lambda>a b. inc_date b < inc_date a
                    \<or> (inc_date b = inc_date a \<and> inc_created_at b \<le> inc_created_at a)) rows"
    using incomes_by_date_created_sorted[of s] by (simp add: sorted_wrt_filter)
next
  assume "ExpenseListView_get_queryset request s = Inr erows"
  then obtain P where "erows = filter P (expenses_by_date_created s)"
    using ExpenseListView_rows by blast
  then show "sorted_wrt (\<lambda>a b. exp_date b < exp_date a
                    \<or> (exp_date b = exp_date a \<and> exp_created_at b \<le> exp_created_at a)) erows"
    using expenses_by_date_created_sorted[of s] by (simp add: sorted_wrt_filter)
next
  have m: "mset (incomes_by_date_created s) = mset (incomes s)"
    by (simp add: incomes_by_date_created_def mset_sort_desc)
  then have "mset (map inc_id (incomes_by_date_created s)) = mset (map inc_id (incomes s))"
    by (metis mset_map)
  moreover have "income_ids_ok s \<longrightarrow> distinct (map inc_id (incomes_by_date_created s))"
    using distinct_ids_listing[OF m, of inc_id] by (simp add: income_ids_ok_def)
  ultimately show "\<exists>every. IncomeListView_get_queryset None s = Inr every
         \<and> IncomeListView_get_queryset (Some no_params) s = Inr every
         \<and> mset every = mset (incomes s)
         \<and> mset (map inc_id every) = mset (map inc_id (incomes s))
         \<and> (income_ids_ok s \<longrightarrow> distinct (map inc_id every))"
    using m IncomeListView_unfiltered[of s] by blast
next
  have m: "mset (expenses_by_date_created s) = mset (expenses s)"
    by (simp add: expenses_by_date_created_def mset_sort_desc)
  then have "mset (map exp_id (expenses_by_date_created s)) = mset (map exp_id (expenses s))"
    by (metis mset_map)
  moreover have "expense_ids_ok s \<longrightarrow> distinct (map exp_id (expenses_by_date_created s))"
    using distinct_ids_listing[OF m, of exp_id] by (simp add: expense_ids_ok_def)
  ultimately show "\<exists>every. ExpenseListView_get_queryset None s = Inr every
         \<and> ExpenseListView_get_queryset (Some no_params) s = Inr every
         \<and> mset every = mset (expenses s)
         \<and> mset (map exp_id every) = mset (map exp_id (expenses s))
         \<and> (expense_ids_ok s \<longrightarrow> distinct (map exp_id every))"
    using m ExpenseListView_unfiltered[of s] by blast
next
  assume ok: "income_ids_ok s"
  note c = Income_create_ids[OF ok, of now cid src amt d nt]
  show "income_ids_ok (snd (Income_create now cid src amt d nt s))" using c by simp
  show "next_income_id s \<notin> inc_id ` set (incomes s)" using c by simp
  have "mset (incomes_by_date_created (snd (Income_create now cid src amt d nt s)))
      = mset (incomes s @ [fst (Income_create now cid src amt d nt s)])"
    using c by (simp add: incomes_by_date_created_def mset_sort_desc)
  then have "mset (map inc_id (incomes_by_date_created (snd (Income_create now cid src amt d nt s))))
      = mset (map inc_id (incomes s @ [fst (Income_create now cid src amt d nt s)]))"
    by (metis mset_map)
  then show "mset (map inc_id (incomes_by_date_created (snd (Income_create now cid src amt d nt s))))
            = add_mset (next_income_id s) (mset (map inc_id (incomes s)))"
    using c by simp
next
  assume ok: "expense_ids_ok s"
  note c = Expense_create_ids[OF ok, of now ttl amt d]
  show "expense_ids_ok (snd (Expense_create now ttl amt d s))" using c by simp
  show "next_expense_id s \<notin> exp_id ` set (expenses s)" using c by simp
  have "mset (expenses_by_date_created (snd (Expense_create now ttl amt d s)))
      = mset (expenses s @ [fst (Expense_create now ttl amt d s)])"
    using c by (simp add: expenses_by_date_created_def mset_sort_desc)
  then have "mset (map exp_id (expenses_by_date_created (snd (Expense_create now ttl amt d s))))
      = mset (map exp_id (expenses s @ [fst (Expense_create now ttl amt d s)]))"
    by (metis mset_map)
  then show "mset (map exp_id (expenses_by_date_created (snd (Expense_create now ttl amt d s))))
            = add_mset (next_expense_id s) (mset (map exp_id (expenses s)))"
    using c by simp
qed

theorem listings_witness:
  "IncomeListView_get_queryset (Some (no_params\<lparr>lp_date_from := DateText (2026, 1, 5)\<rparr>))
     (a_store [an_income 1 (2026, 1, 5), an_income 2 (2026, 1, 7), an_income 3 (2026, 1, 5),
               an_income 4 (2025, 12, 31)]
              [an_expense 1 (2026, 1, 6), an_expense 2 (2026, 2, 1)])
     = Inr [an_income 2 (2026, 1, 7), an_income 3 (2026, 1, 5), an_income 1 (2026, 1, 5)]
   \<and> ExpenseListView_get_queryset (Some (no_params\<lparr>lp_date_from := DateText (2026, 1, 5)\<rparr>))
     (a_store [an_income 1 (2026, 1, 5), an_income 2 (2026, 1, 7), an_income 3 (2026, 1, 5),
               an_income 4 (2025, 12, 31)]
              [an_expense 1 (2026, 1, 6), an_expense 2 (2026, 2, 1)])
     = Inr [an_expense 2 (2026, 2, 1), an_expense 1 (2026, 1, 6)]
   \<and> income_ids_ok
     (a_store [an_income 1 (2026, 1, 5), an_income 2 (2026, 1, 7), an_income 3 (2026, 1, 5),
               an_income 4 (2025, 12, 31)]
              [an_expense 1 (2026, 1, 6), an_expense 2 (2026, 2, 1)])
   \<and> expense_ids_ok
     (a_store [an_income 1 (2026, 1, 5), an_income 2 (2026, 1, 7), an_income 3 (2026, 1, 5),
               an_income 4 (2025, 12, 31)]
              [an_expense 1 (2026, 1, 6), an_expense 2 (2026, 2, 1)])
   \<and> sorted_wrt (\<lambda>a b. inc_date b < inc_date a
                    \<or> (inc_date b = inc_date a \<and> inc_created_at b \<le> inc_created_at a))
        [an_income 2 (2026, 1, 7), an_income 3 (2026, 1, 5), an_income 1 (2026, 1, 5)]
   \<and> sorted_wrt (\<lambda>a b. exp_date b < exp_date a
                    \<or> (exp_date b = exp_date a \<and> exp_created_at b \<le> exp_created_at a))
        [an_expense 2 (2026, 2, 1), an_expense 1 (2026, 1, 6)]"
proof -
  let ?s = "a_store [an_income 1 (2026, 1, 5), an_income 2 (2026, 1, 7), an_income 3 (2026, 1, 5),
               an_income 4 (2025, 12, 31)]
              [an_expense 1 (2026, 1, 6), an_expense 2 (2026, 2, 1)]"
  let ?q = "Some (no_params\<lparr>lp_date_from := DateText (2026, 1, 5)\<rparr>)"
  have i: "IncomeListView_get_queryset ?q ?s
     = Inr [an_income 2 (2026, 1, 7), an_income 3 (2026, 1, 5), an_income 1 (2026, 1, 5)]"
    by (simp add: IncomeListView_get_queryset_def incomes_by_date_created_def sort_desc_def
        no_params_def a_store_def an_income_def filter_by_date_def filter_by_amount_def
        strip_def less_eq_prod_def less_prod_def)
  have e: "ExpenseListView_get_queryset ?q ?s
     = Inr [an_expense 2 (2026, 2, 1), an_expense 1 (2026, 1, 6)]"
    by (simp add: ExpenseListView_get_queryset_def expenses_by_date_created_def sort_desc_def
        no_params_def a_store_def an_expense_def filter_by_date_def filter_by_amount_def
        strip_def less_eq_prod_def less_prod_def)
  have io: "income_ids_ok ?s"
    by (simp add: income_ids_ok_def a_store_def an_income_def)
  have eo: "expense_ids_ok ?s"
    by (simp add: expense_ids_ok_def a_store_def an_expense_def)
  from listings_newest_first_and_complete
         [of ?q ?s "[an_income 2 (2026, 1, 7), an_income 3 (2026, 1, 5), an_income 1 (2026, 1, 5)]"
             "[an_expense 2 (2026, 2, 1), an_expense 1 (2026, 1, 6)]"]
  show ?thesis using i e io eo by blast
qed

section \<open>Recent transactions of the dashboard\<close>

lemma recent_transactions_eq:
  "recent_transactions (DashboardDataAPIView_get db_sum s)
     = sort_desc tx_date (map (income_entry s) (get_recent_income 5 s)
                          @ map expense_entry (get_recent_expenses 5 s))"
  by (simp add: DashboardDataAPIView_get_def Let_def get_recent_income_def
      get_recent_expenses_def length_sort_desc)

lemma get_recent_income_most_recent:
  "\<exists>rest. mset (get_recent_income n s @ rest) = mset (incomes s)
     \<and> (\<forall>x\<in>set (get_recent_income n s). \<forall>y\<in>set rest.
           inc_date y < inc_date x
           \<or> (inc_date y = inc_date x \<and> inc_created_at y \<le> inc_created_at x))"
proof (intro exI[of _ "drop n (incomes_by_date_created s)"] conjI ballI)
  show "mset (get_recent_income n s @ drop n (incomes_by_date_created s)) = mset (incomes s)"
    unfolding get_recent_income_def append_take_drop_id
    by (simp add: incomes_by_date_created_def mset_sort_desc)
next
  fix x y
  assume "x \<in> set (get_recent_income n s)" "y \<in> set (drop n (incomes_by_date_created s))"
  then show "inc_date y < inc_date x
           \<or> (inc_date y = inc_date x \<and> inc_created_at y \<le> inc_created_at x)"
    unfolding get_recent_income_def
    by (rule sorted_wrt_take_drop[OF incomes_by_date_created_sorted])
qed

lemma get_recent_expenses_most_recent:
  "\<exists>rest. mset (get_recent_expenses n s @ rest) = mset (expenses s)
     \<and> (\<forall>x\<in>set (get_recent_expenses n s). \<forall>y\<in>set rest.
           exp_date y < exp_date x
           \<or> (exp_date y = exp_date x \<and> exp_created_at y \<le> exp_created_at x))"
proof (intro exI[of _ "drop n (expenses_by_date_created s)"] conjI ballI)
  show "mset (get_recent_expenses n s @ drop n (expenses_by_date_created s)) = mset (expenses s)"
    unfolding get_recent_expenses_def append_take_drop_id
    by (simp add: expenses_by_date_created_def mset_sort_desc)
next
  fix x y
  assume "x \<in> set (get_recent_expenses n s)" "y \<in> set (drop n (expenses_by_date_created s))"
  then show "exp_date y < exp_date x
           \<or> (exp_date y = exp_date x \<and> exp_created_at y \<le> exp_created_at x)"
    unfolding get_recent_expenses_def
    by (rule sorted_wrt_take_drop[OF expenses_by_date_created_sorted])
qed

text \<open>
  Claim C2, against the code.  With six Income rows of January 2026 and one Expense row
  of 2020 the store holds seven transactions, fewer than ten, and the dashboard returns
  six of them: the Income row of 1 January 2026 is left out, while the Expense row of
  2020 is returned.
\<close>

theorem recent_transactions_counterexample:
  "map tx_id (recent_transactions (DashboardDataAPIView_get sum_list
      (a_store [an_income 1 (2026, 1, 1), an_income 2 (2026, 1, 2), an_income 3 (2026, 1, 3),
                an_income 4 (2026, 1, 4), an_income 5 (2026, 1, 5), an_income 6 (2026, 1, 6)]
               [an_expense 1 (2020, 1, 1)])))
     = [6, 5, 4, 3, 2, 1]
   \<and> map tx_type (recent_transactions (DashboardDataAPIView_get sum_list
      (a_store [an_income 1 (2026, 1, 1), an_income 2 (2026, 1, 2), an_income 3 (2026, 1, 3),
                an_income 4 (2026, 1, 4), an_income 5 (2026, 1, 5), an_income 6 (2026, 1, 6)]
               [an_expense 1 (2020, 1, 1)])))
     = [''income'', ''income'', ''income'', ''income'', ''income'', ''expense'']
   \<and> length (incomes
      (a_store [an_income 1 (2026, 1, 1), an_income 2 (2026, 1, 2), an_income 3 (2026, 1, 3),
                an_income 4 (2026, 1, 4), an_income 5 (2026, 1, 5), an_income 6 (2026, 1, 6)]
               [an_expense 1 (2020, 1, 1)])) = 6
   \<and> length (expenses
      (a_store [an_income 1 (2026, 1, 1), an_income 2 (2026, 1, 2), an_income 3 (2026, 1, 3),
                an_income 4 (2026, 1, 4), an_income 5 (2026, 1, 5), an_income 6 (2026, 1, 6)]
               [an_expense 1 (2020, 1, 1)])) = 1"
  by (simp add: DashboardDataAPIView_get_def Let_def incomes_by_date_created_def
      expenses_by_date_created_def sort_desc_def a_store_def an_income_def an_expense_def
      income_entry_def expense_entry_def less_eq_prod_def less_prod_def)

text \<open>
  Claim C2, as amended.  The recent transactions of the dashboard are the five most
  recent Income rows and the five most recent Expense rows (all rows of a kind that has
  fewer than five; most recent by date, then by \<open>created_at\<close>), put together and sorted
  by date, newest first; so there are at most ten of them.
\<close>

theorem recent_transactions_five_of_each:
  "mset (recent_transactions (DashboardDataAPIView_get db_sum s))
     = mset (map (income_entry s) (get_recent_income 5 s))
       + mset (map expense_entry (get_recent_expenses 5 s))
   \<and> sorted_wrt (\<lambda>a b. tx_date b \<le> tx_date a) (recent_transactions (DashboardDataAPIView_get db_sum s))
   \<and> length (recent_transactions (DashboardDataAPIView_get db_sum s))
       = min 5 (length (incomes s)) + min 5 (length (expenses s))
   \<and> length (recent_transactions (DashboardDataAPIView_get db_sum s)) \<le> 10
   \<and> length (get_recent_income 5 s) = min 5 (length (incomes s))
   \<and> length (get_recent_expenses 5 s) = min 5 (length (expenses s))
   \<and> (\<exists>rest. mset (get_recent_income 5 s @ rest) = mset (incomes s)
        \<and> (\<forall>x\<in>set (get_recent_income 5 s). \<forall>y\<in>set rest.
              inc_date y < inc_date x
              \<or> (inc_date y = inc_date x \<and> inc_created_at y \<le> inc_created_at x)))
   \<and> (\<exists>rest. mset (get_recent_expenses 5 s @ rest) = mset (expenses s)
        \<and> (\<forall>x\<in>set (get_recent_expenses 5 s). \<forall>y\<in>set rest.
              exp_date y < exp_date x
              \<or> (exp_date y = exp_date x \<and> exp_created_at y \<le> exp_created_at x)))"
proof -
  have li: "length (get_recent_income 5 s) = min 5 (length (incomes s))"
    by (simp add: get_recent_income_def incomes_by_date_created_def length_sort_desc)
  have le: "length (get_recent_expenses 5 s) = min 5 (length (expenses s))"
    by (simp add: get_recent_expenses_def expenses_by_date_created_def length_sort_desc)
  have m: "mset (recent_transactions (DashboardDataAPIView_get db_sum s))
     = mset (map (income_entry s) (get_recent_income 5 s))
       + mset (map expense_entry (get_recent_expenses 5 s))"
    unfolding recent_transactions_eq by (simp add: mset_sort_desc)
  have s: "sorted_wrt (\<lambda>a b. tx_date b \<le> tx_date a)
             (recent_transactions (DashboardDataAPIView_get db_sum s))"
    unfolding recent_transactions_eq by (rule sorted_sort_desc)
  have l: "length (recent_transactions (DashboardDataAPIView_get db_sum s))
       = min 5 (length (incomes s)) + min 5 (length (expenses s))"
    unfolding recent_transactions_eq by (simp add: length_sort_desc li le)
  show ?thesis
    using m s l li le get_recent_income_most_recent[of 5 s]
      get_recent_expenses_most_recent[of 5 s]
    by simp
qed

theorem recent_transactions_witness:
  "map tx_id (recent_transactions (DashboardDataAPIView_get sum_list
      (a_store [an_income 1 (2026, 1, 1), an_income 2 (2026, 1, 9)]
               [an_expense 1 (2026, 1, 4)]))) = [2, 1, 1]
   \<and> get_recent_income 5 (a_store [an_income 1 (2026, 1, 1), an_income 2 (2026, 1, 9)]
               [an_expense 1 (2026, 1, 4)])
      = [an_income 2 (2026, 1, 9), an_income 1 (2026, 1, 1)]
   \<and> length (recent_transactions (DashboardDataAPIView_get sum_list
      (a_store [an_income 1 (2026, 1, 1), an_income 2 (2026, 1, 9)]
               [an_expense 1 (2026, 1, 4)]))) = 3"
proof -
  let ?s = "a_store [an_income 1 (2026, 1, 1), an_income 2 (2026, 1, 9)]
               [an_expense 1 (2026, 1, 4)]"
  have l: "min 5 (length (incomes ?s)) + min 5 (length (expenses ?s)) = 3"
    by (simp add: a_store_def)
  have a: "map tx_id (recent_transactions (DashboardDataAPIView_get sum_list ?s)) = [2, 1, 1]"
    by (simp add: DashboardDataAPIView_get_def Let_def incomes_by_date_created_def
      expenses_by_date_created_def sort_desc_def a_store_def an_income_def an_expense_def
      income_entry_def expense_entry_def less_eq_prod_def less_prod_def)
  have b: "get_recent_income 5 ?s = [an_income 2 (2026, 1, 9), an_income 1 (2026, 1, 1)]"
    by (simp add: get_recent_income_def incomes_by_date_created_def sort_desc_def a_store_def
        an_income_def less_eq_prod_def less_prod_def)
  from recent_transactions_five_of_each[of sum_list ?s] l
  have "length (recent_transactions (DashboardDataAPIView_get sum_list ?s)) = 3" by simp
  then show ?thesis using a b by simp
qed

section \<open>Search\<close>

lemma take_all_above:
  "sorted_wrt (\<lambda>a b. key b \<le> key a) xs \<Longrightarrow> n \<le> length (filter (\<lambda>z. k < key z) xs) \<Longrightarrow>
   \<forall>z\<in>set (take n xs). (k::'k::linorder) < key z"
proof (induction xs arbitrary: n)
  case Nil
  then show ?case by simp
next
  case (Cons a xs)
  show ?case
  proof (cases n)
    case 0
    then show ?thesis by simp
  next
    case (Suc m)
    show ?thesis
    proof (cases "k < key a")
      case True
      then have "m \<le> length (filter (\<lambda>z. k < key z) xs)" using Cons.prems(2) Suc by simp
      moreover have "sorted_wrt (\<lambda>a b. key b \<le> key a) xs" using Cons.prems(1) by simp
      ultimately have "\<forall>z\<in>set (take m xs). k < key z" by (rule Cons.IH[rotated])
      then show ?thesis using True Suc by simp
    next
      case False
      then have "\<forall>z\<in>set xs. \<not> k < key z" using Cons.prems(1) by fastforce
      then have "filter (\<lambda>z. k < key z) xs = []" by (simp add: filter_empty_conv)
      then show ?thesis using Cons.prems(2) Suc False by simp
    qed
  qed
qed

lemma length_filter_sort_desc:
  "length (filter P (sort_desc key xs)) = length (filter P xs)"
  by (simp add: filter_sort_desc length_sort_desc)

lemma search_all:
  assumes "strip q \<noteq> []" and "0 \<le> limit"
  shows "SearchAPIView_get q ''all'' limit s =
           \<lparr>sr_http_status = 200, sr_status = ''success'',
            sr_results = take (nat limit) (sort_desc tx_date (search_merged (strip q) (nat limit) s)),
            sr_count = Some (length (search_merged (strip q) (nat limit) s))\<rparr>"
  using assms
  by (simp add: SearchAPIView_get_def Let_def queryset_upto_def list_upto_def search_merged_def
      length_sort_desc)

lemma search_no_results:
  assumes "strip q = [] \<or> limit < 0"
  shows "sr_results (SearchAPIView_get q ''all'' limit s) = []"
  using assms
  by (auto simp: SearchAPIView_get_def Let_def queryset_upto_def)

lemma income_cut_not_newer:
  assumes x: "x \<in> set (drop n (search_income query s))"
      and e: "e \<in> set (take n (sort_desc tx_date (search_merged query n s)))"
  shows "inc_date x \<le> tx_date e"
proof (rule ccontr)
  assume "\<not> inc_date x \<le> tx_date e"
  then have lt: "tx_date e < inc_date x" by simp
  let ?I = "search_income query s"
  have len: "length (take n ?I) = n" using x by (cases "n < length ?I") auto
  have "sorted_wrt (\<lambda>a b. inc_date b \<le> inc_date a) ?I"
    unfolding search_income_def by (rule sorted_sort_desc)
  then have "\<forall>y\<in>set (take n ?I). inc_date x \<le> inc_date y"
    using x sorted_wrt_take_drop by fastforce
  then have "\<forall>y\<in>set (take n ?I). tx_date e < tx_date (income_entry s y)"
    using lt by (auto simp: income_entry_def)
  then have "filter (\<lambda>z. tx_date e < tx_date z) (map (income_entry s) (take n ?I))
               = map (income_entry s) (take n ?I)"
    by (simp add: filter_id_conv)
  then have "n \<le> length (filter (\<lambda>z. tx_date e < tx_date z) (search_merged query n s))"
    unfolding search_merged_def filter_append using len
    by (metis length_append length_map le_add1)
  then have "n \<le> length (filter (\<lambda>z. tx_date e < tx_date z)
                     (sort_desc tx_date (search_merged query n s)))"
    by (simp add: length_filter_sort_desc)
  then have "\<forall>z\<in>set (take n (sort_desc tx_date (search_merged query n s))). tx_date e < tx_date z"
    by (rule take_all_above[OF sorted_sort_desc])
  then show False using e by auto
qed

lemma expense_cut_not_newer:
  assumes x: "x \<in> set (drop n (search_expense query s))"
      and e: "e \<in> set (take n (sort_desc tx_date (search_merged query n s)))"
  shows "exp_date x \<le> tx_date e"
proof (rule ccontr)
  assume "\<not> exp_date x \<le> tx_date e"
  then have lt: "tx_date e < exp_date x" by simp
  let ?E = "search_expense query s"
  have len: "length (take n ?E) = n" using x by (cases "n < length ?E") auto
  have "sorted_wrt (\<lambda>a b. exp_date b \<le> exp_date a) ?E"
    unfolding search_expense_def by (rule sorted_sort_desc)
  then have "\<forall>y\<in>set (take n ?E). exp_date x \<le> exp_date y"
    using x sorted_wrt_take_drop by fastforce
  then have "\<forall>y\<in>set (take n ?E). tx_date e < tx_date (expense_entry y)"
    using lt by (auto simp: expense_entry_def)
  then have "filter (\<lambda>z. tx_date e < tx_date z) (map expense_entry (take n ?E))
               = map expense_entry (take n ?E)"
    by (simp add: filter_id_conv)
  then have "n \<le> length (filter (\<lambda>z. tx_date e < tx_date z) (search_merged query n s))"
    unfolding search_merged_def filter_append using len
    by (metis length_append length_map le_add2)
  then have "n \<le> length (filter (\<lambda>z. tx_date e < tx_date z)
                     (sort_desc tx_date (search_merged query n s)))"
    by (simp add: length_filter_sort_desc)
  then have "\<forall>z\<in>set (take n (sort_desc tx_date (search_merged query n s))). tx_date e < tx_date z"
    by (rule take_all_above[OF sorted_sort_desc])
  then show False using e by auto
qed

lemma search_income_cut_not_newer:
  assumes "x \<in> set (drop (nat limit) (search_income (strip q) s))"
      and "e \<in> set (sr_results (SearchAPIView_get q ''all'' limit s))"
  shows "inc_date x \<le> tx_date e"
proof (cases "strip q = [] \<or> limit < 0")
  case True
  then show ?thesis using assms(2) search_no_results[of q limit s] by simp
next
  case False
  then have "e \<in> set (take (nat limit)
                (sort_desc tx_date (search_merged (strip q) (nat limit) s)))"
    using assms(2) search_all[of q limit s] by simp
  with assms(1) show ?thesis by (rule income_cut_not_newer)
qed

lemma search_expense_cut_not_newer:
  assumes "x \<in> set (drop (nat limit) (search_expense (strip q) s))"
      and "e \<in> set (sr_results (SearchAPIView_get q ''all'' limit s))"
  shows "exp_date x \<le> tx_date e"
proof (cases "strip q = [] \<or> limit < 0")
  case True
  then show ?thesis using assms(2) search_no_results[of q limit s] by simp
next
  case False
  then have "e \<in> set (take (nat limit)
                (sort_desc tx_date (search_merged (strip q) (nat limit) s)))"
    using assms(2) search_all[of q limit s] by simp
  with assms(1) show ?thesis by (rule expense_cut_not_newer)
qed

lemma search_all_cut:
  "\<forall>e\<in>set (take n (sort_desc tx_date xs)). \<forall>z\<in>set (drop n (sort_desc tx_date xs)).
     tx_date z \<le> tx_date e"
  using sorted_wrt_take_drop[OF sorted_sort_desc[of tx_date xs]] by blast

text \<open>
  Claim C10, against the code.  The last part of the claim does not happen: no search
  with the type \<open>all\<close> leaves out a match beyond the cutoff of its kind that is more
  recent than an entry of the other kind which it returns.
\<close>

theorem search_cutoff_counterexample:
  "\<not> (\<exists>s q limit x e.
         x \<in> set (drop (nat limit) (search_income (strip q) s))
         \<and> e \<in> set (sr_results (SearchAPIView_get q ''all'' limit s))
         \<and> tx_type e = ''expense'' \<and> tx_date e < inc_date x)
   \<and> \<not> (\<exists>s q limit x e.
         x \<in> set (drop (nat limit) (search_expense (strip q) s))
         \<and> e \<in> set (sr_results (SearchAPIView_get q ''all'' limit s))
         \<and> tx_type e = ''income'' \<and> tx_date e < exp_date x)"
proof (intro conjI notI)
  assume "\<exists>s q limit x e.
         x \<in> set (drop (nat limit) (search_income (strip q) s))
         \<and> e \<in> set (sr_results (SearchAPIView_get q ''all'' limit s))
         \<and> tx_type e = ''expense'' \<and> tx_date e < inc_date x"
  then obtain s q limit x e where
    "x \<in> set (drop (nat limit) (search_income (strip q) s))"
    "e \<in> set (sr_results (SearchAPIView_get q ''all'' limit s))"
    "tx_date e < inc_date x" by blast
  then show False using search_income_cut_not_newer[of x limit q s e] by simp
next
  assume "\<exists>s q limit x e.
         x \<in> set (drop (nat limit) (search_expense (strip q) s))
         \<and> e \<in> set (sr_results (SearchAPIView_get q ''all'' limit s))
         \<and> tx_type e = ''income'' \<and> tx_date e < exp_date x"
  then obtain s q limit x e where
    "x \<in> set (drop (nat limit) (search_expense (strip q) s))"
    "e \<in> set (sr_results (SearchAPIView_get q ''all'' limit s))"
    "tx_date e < exp_date x" by blast
  then show False using search_expense_cut_not_newer[of x limit q s e] by simp
qed

text \<open>
  Claim C10, as amended.  For a search with the type \<open>all\<close>, a query that is not blank
  and a limit that is not negative: each kind contributes its first \<open>limit\<close> matches in
  descending order of date; the merged list is sorted by date, newest first, and cut to
  \<open>limit\<close> entries; \<open>count\<close> is the length before the cut, the sum of the two
  contributions, so it is at most twice the limit and can exceed the number of results.
  The results are nevertheless the most recent matches: an entry that the last cut
  removes, or a match beyond the cutoff of its kind, is never more recent than a result.
\<close>

theorem search_all_limit_and_count:
  assumes "strip q \<noteq> []" and "0 \<le> limit"
  shows "sr_http_status (SearchAPIView_get q ''all'' limit s) = 200
     \<and> sr_count (SearchAPIView_get q ''all'' limit s)
         = Some (min (nat limit) (length (search_income (strip q) s))
                 + min (nat limit) (length (search_expense (strip q) s)))
     \<and> length (sr_results (SearchAPIView_get q ''all'' limit s))
         = min (nat limit) (min (nat limit) (length (search_income (strip q) s))
                            + min (nat limit) (length (search_expense (strip q) s)))
     \<and> sorted_wrt (\<lambda>a b. tx_date b \<le> tx_date a)
          (sr_results (SearchAPIView_get q ''all'' limit s))
     \<and> (\<exists>cut. mset (sr_results (SearchAPIView_get q ''all'' limit s) @ cut)
                  = mset (map (income_entry s) (take (nat limit) (search_income (strip q) s)))
                    + mset (map expense_entry (take (nat limit) (search_expense (strip q) s)))
             \<and> (\<forall>e\<in>set (sr_results (SearchAPIView_get q ''all'' limit s)). \<forall>z\<in>set cut.
                   tx_date z \<le> tx_date e))
     \<and> (\<forall>x\<in>set (drop (nat limit) (search_income (strip q) s)).
          \<forall>e\<in>set (sr_results (SearchAPIView_get q ''all'' limit s)). inc_date x \<le> tx_date e)
     \<and> (\<forall>x\<in>set (drop (nat limit) (search_expense (strip q) s)).
          \<forall>e\<in>set (sr_results (SearchAPIView_get q ''all'' limit s)). exp_date x \<le> tx_date e)"
proof -
  let ?M = "search_merged (strip q) (nat limit) s"
  note r = search_all[OF assms, of s]
  have lm: "length ?M = min (nat limit) (length (search_income (strip q) s))
                 + min (nat limit) (length (search_expense (strip q) s))"
    by (simp add: search_merged_def)
  have 1: "sr_http_status (SearchAPIView_get q ''all'' limit s) = 200" by (simp add: r)
  have 2: "sr_count (SearchAPIView_get q ''all'' limit s)
         = Some (min (nat limit) (length (search_income (strip q) s))
                 + min (nat limit) (length (search_expense (strip q) s)))"
    by (simp add: r lm)
  have res: "sr_results (SearchAPIView_get q ''all'' limit s)
               = take (nat limit) (sort_desc tx_date ?M)"
    by (simp add: r)
  have 3: "length (sr_results (SearchAPIView_get q ''all'' limit s))
         = min (nat limit) (min (nat limit) (length (search_income (strip q) s))
                            + min (nat limit) (length (search_expense (strip q) s)))"
    unfolding res by (simp add: length_sort_desc lm min.commute)
  have 4: "sorted_wrt (\<lambda>a b. tx_date b \<le> tx_date a)
          (sr_results (SearchAPIView_get q ''all'' limit s))"
    unfolding res by (rule sorted_wrt_take[OF sorted_sort_desc])
  have "mset (take (nat limit) (sort_desc tx_date ?M) @ drop (nat limit) (sort_desc tx_date ?M))
          = mset (map (income_entry s) (take (nat limit) (search_income (strip q) s)))
            + mset (map expense_entry (take (nat limit) (search_expense (strip q) s)))"
    unfolding append_take_drop_id by (simp add: mset_sort_desc search_merged_def)
  then have 5: "\<exists>cut. mset (sr_results (SearchAPIView_get q ''all'' limit s) @ cut)
                  = mset (map (income_entry s) (take (nat limit) (search_income (strip q) s)))
                    + mset (map expense_entry (take (nat limit) (search_expense (strip q) s)))
             \<and> (\<forall>e\<in>set (sr_results (SearchAPIView_get q ''all'' limit s)). \<forall>z\<in>set cut.
                   tx_date z \<le> tx_date e)"
    unfolding res using search_all_cut[of "nat limit" ?M] by blast
  have 6: "\<forall>x\<in>set (drop (nat limit) (search_income (strip q) s)).
          \<forall>e\<in>set (sr_results (SearchAPIView_get q ''all'' limit s)). inc_date x \<le> tx_date e"
    using search_income_cut_not_newer by blast
  have 7: "\<forall>x\<in>set (drop (nat limit) (search_expense (strip q) s)).
          \<forall>e\<in>set (sr_results (SearchAPIView_get q ''all'' limit s)). exp_date x \<le> tx_date e"
    using search_expense_cut_not_newer by blast
  show ?thesis using 1 2 3 4 5 6 7 by blast
qed

theorem search_all_witness:
  "strip ''rent'' \<noteq> [] \<and> (0::int) \<le> 1
   \<and> sr_count (SearchAPIView_get ''rent'' ''all'' 1
        (a_store [(an_income 1 (2026, 1, 5))\<lparr>inc_note := ''Rent received''\<rparr>,
                  (an_income 2 (2026, 1, 7))\<lparr>inc_note := ''rent''\<rparr>]
                 [an_expense 1 (2026, 1, 6)])) = Some 2
   \<and> map tx_id (sr_results (SearchAPIView_get ''rent'' ''all'' 1
        (a_store [(an_income 1 (2026, 1, 5))\<lparr>inc_note := ''Rent received''\<rparr>,
                  (an_income 2 (2026, 1, 7))\<lparr>inc_note := ''rent''\<rparr>]
                 [an_expense 1 (2026, 1, 6)]))) = [2]
   \<and> length (sr_results (SearchAPIView_get ''rent'' ''all'' 1
        (a_store [(an_income 1 (2026, 1, 5))\<lparr>inc_note := ''Rent received''\<rparr>,
                  (an_income 2 (2026, 1, 7))\<lparr>inc_note := ''rent''\<rparr>]
                 [an_expense 1 (2026, 1, 6)]))) = 1"
proof -
  let ?s = "a_store [(an_income 1 (2026, 1, 5))\<lparr>inc_note := ''Rent received''\<rparr>,
                  (an_income 2 (2026, 1, 7))\<lparr>inc_note := ''rent''\<rparr>]
                 [an_expense 1 (2026, 1, 6)]"
  have q: "strip ''rent'' \<noteq> []" by (simp add: strip_def is_space_def)
  have l: "(0::int) \<le> 1" by simp
  have i: "search_income (strip ''rent'') ?s
      = [(an_income 2 (2026, 1, 7))\<lparr>inc_note := ''rent''\<rparr>,
         (an_income 1 (2026, 1, 5))\<lparr>inc_note := ''Rent received''\<rparr>]"
    by code_simp
  have e: "search_expense (strip ''rent'') ?s = [an_expense 1 (2026, 1, 6)]"
    by code_simp
  have r: "map tx_id (sr_results (SearchAPIView_get ''rent'' ''all'' 1 ?s)) = [2]"
    by code_simp
  from search_all_limit_and_count[OF q l, of ?s]
  have "sr_count (SearchAPIView_get ''rent'' ''all'' 1 ?s) = Some 2
      \<and> length (sr_results (SearchAPIView_get ''rent'' ''all'' 1 ?s)) = 1"
    unfolding i e by simp
  then show ?thesis using q l r by simp
qed

section \<open>Validation on the API paths\<close>

text \<open>
  Claim C3, at a failing input.  The form rejects the amount 100000000.00.  A
  \<open>POST /api/income/\<close> with that amount is answered 201 and the row is stored; a
  \<open>PUT /api/income/1/\<close> with it is answered 200 and the row is changed.
\<close>

theorem api_accepts_amount_above_maximum:
  "clean_amount (Some 100000000) = ValidationError ''Amount cannot exceed $99,999,999.99.''
   \<and> IncomeAPIView_post 9
        \<lparr>ib_category_id = Some 1, ib_source = Some ''Pay'',
         ib_amount = Some (Numeric 100000000), ib_date = Some (DateText (2026, 11, 3)),
         ib_note = None\<rparr>
        (a_store [] [])
      = (success_response 201 ''Income transaction created successfully'',
         a_store [\<lparr>inc_id = 1, inc_category_id = 1, inc_source = ''Pay'',
                   inc_amount = 100000000, inc_date = (2026, 11, 3), inc_note = [],
                   inc_created_at = 9, inc_updated_at = 9\<rparr>] [])
   \<and> IncomeAPIView_put 9 1 (no_income_members\<lparr>ib_amount := Some (Numeric 100000000)\<rparr>)
        (a_store [an_income 1 (2026, 1, 5)] [])
      = (success_response 200 ''Income transaction updated successfully'',
         a_store [(an_income 1 (2026, 1, 5))\<lparr>inc_amount := 100000000, inc_updated_at := 9\<rparr>] [])"
  by (simp add: clean_amount_def IncomeAPIView_post_def IncomeAPIView_put_def
      put_income_fields_def put_income_category_def put_income_source_def put_income_amount_def
      put_income_date_def put_income_note_def no_income_members_def
      Category_get_def Income_get_def Income_create_def Income_save_def api_amount_def
      api_date_def a_store_def an_income_def salary_def strip_def is_space_def Let_def)

text \<open>
  Claim C4, at a failing input.  On 3 November 2026 the form rejects the date
  2099-01-01.  A \<open>POST /api/expense/\<close> with that date is answered 201 and the row is
  stored; a \<open>PUT /api/expense/1/\<close> with it is answered 200 and the row is changed.
\<close>

theorem api_accepts_date_beyond_one_year:
  "clean_date (2026, 11, 3) (Some (2099, 1, 1))
      = ValidationError ''Date cannot be more than one year in the future.''
   \<and> ExpenseAPIView_post 9
        \<lparr>eb_title = Some ''Rent'', eb_amount = Some (Numeric 10),
         eb_date = Some (DateText (2099, 1, 1))\<rparr>
        (a_store [] [])
      = (success_response 201 ''Expense transaction created successfully'',
         a_store [] [\<lparr>exp_id = 1, exp_title = ''Rent'', exp_amount = 10,
                      exp_date = (2099, 1, 1), exp_created_at = 9, exp_updated_at = 9\<rparr>])
   \<and> ExpenseAPIView_put 9 1 (no_expense_members\<lparr>eb_date := Some (DateText (2099, 1, 1))\<rparr>)
        (a_store [] [an_expense 1 (2026, 1, 6)])
      = (success_response 200 ''Expense transaction updated successfully'',
         a_store [] [(an_expense 1 (2026, 1, 6))\<lparr>exp_date := (2099, 1, 1),
                                                  exp_updated_at := 9\<rparr>])"
  by (simp add: clean_date_def replace_year_def valid_date_def days_in_month_def year_def
      month_def day_def ExpenseAPIView_post_def ExpenseAPIView_put_def
      put_expense_fields_def put_expense_title_def put_expense_amount_def
      put_expense_date_def no_expense_members_def
      Expense_get_def Expense_create_def Expense_save_def api_amount_def
      api_date_def a_store_def an_expense_def strip_def is_space_def Let_def
      less_prod_def less_eq_prod_def)

section \<open>Malformed filter values\<close>

text \<open>
  Claim C7, at a failing input.  A listing request whose \<open>amount_min\<close> or \<open>amount_max\<close>
  is a text that is no number does not return a list: \<open>decimal.InvalidOperation\<close> leaves
  \<open>get_queryset\<close>, since the \<open>except\<close> clause names only \<open>ValueError\<close> and \<open>TypeError\<close>.
  A date that does not parse is dropped, as the claim says.
\<close>

theorem listing_raises_on_malformed_amount:
  "IncomeListView_get_queryset (Some (no_params\<lparr>lp_amount_min := NonNumeric\<rparr>))
      (a_store [an_income 1 (2026, 1, 5)] [an_expense 1 (2026, 1, 6)])
     = Inl InvalidOperation
   \<and> IncomeListView_get_queryset (Some (no_params\<lparr>lp_amount_max := NonNumeric\<rparr>))
      (a_store [an_income 1 (2026, 1, 5)] [an_expense 1 (2026, 1, 6)])
     = Inl InvalidOperation
   \<and> ExpenseListView_get_queryset (Some (no_params\<lparr>lp_amount_min := NonNumeric\<rparr>))
      (a_store [an_income 1 (2026, 1, 5)] [an_expense 1 (2026, 1, 6)])
     = Inl InvalidOperation
   \<and> ExpenseListView_get_queryset (Some (no_params\<lparr>lp_amount_max := NonNumeric\<rparr>))
      (a_store [an_income 1 (2026, 1, 5)] [an_expense 1 (2026, 1, 6)])
     = Inl InvalidOperation
   \<and> IncomeListView_get_queryset
        (Some (no_params\<lparr>lp_date_from := BadDate, lp_amount_min := Numeric 50\<rparr>))
      (a_store [an_income 1 (2026, 1, 5)] [an_expense 1 (2026, 1, 6)])
     = Inr [an_income 1 (2026, 1, 5)]
   \<and> ExpenseListView_get_queryset
        (Some (no_params\<lparr>lp_date_to := BadDate, lp_amount_min := Numeric 50\<rparr>))
      (a_store [an_income 1 (2026, 1, 5)] [an_expense 1 (2026, 1, 6)])
     = Inr []"
  by (simp add: IncomeListView_get_queryset_def ExpenseListView_get_queryset_def
      no_params_def filter_by_date_def filter_by_amount_def strip_def
      incomes_by_date_created_def expenses_by_date_created_def sort_desc_def a_store_def
      an_income_def an_expense_def Let_def)

end
